theory Spec2Isabelle
  imports Complex_Main "HOL-Library.Sublist" "HOL-Library.AList"
begin

section \<open>Python values, dictionaries and exceptions\<close>

text \<open>
  The sensors and providers of \<^verbatim>\<open>custom_components/isp_health\<close> return Python
  dictionaries built from literals. A dictionary is modelled as an association list in
  insertion order (the order of the keys in the source's dict literal); the values are
  the Python values that occur in those literals. A Python float is a double: the model
  represents it by the real number it denotes, and names a value that \<^verbatim>\<open>round(x, 2)\<close>
  returns by the decimal it prints.
\<close>

datatype pyval =
    PNone
  | PBool bool
  | PInt int
  | PFloat real
  | PStr string
  | PList "pyval list"
  | PDict "(string \<times> pyval) list"

type_synonym pydict = "(string \<times> pyval) list"

text \<open>\<^verbatim>\<open>d.get(k)\<close>: the value stored under \<open>k\<close>, \<^verbatim>\<open>None\<close> when the key is absent.\<close>

definition dict_get :: "pydict \<Rightarrow> string \<Rightarrow> pyval" where
  "dict_get d k = (case map_of d k of None \<Rightarrow> PNone | Some v \<Rightarrow> v)"

text \<open>
  Exceptions are values. Every exception the modelled code handles is caught by an
  \<^verbatim>\<open>except Exception\<close> clause; the only class that is told apart is the timeout
  raised by \<^verbatim>\<open>asyncio.wait_for\<close>. \<open>str_exn\<close> is Python's \<^verbatim>\<open>str(e)\<close>.
\<close>

datatype py_exn = PyException string | PyTimeoutError string

fun str_exn :: "py_exn \<Rightarrow> string" where
  "str_exn (PyException msg) = msg"
| "str_exn (PyTimeoutError msg) = msg"

section \<open>DNS configuration sensor: the detector chain (sensors.py)\<close>

subsection \<open>\<^verbatim>\<open>DNSConfigSensor._is_container_dns\<close>\<close>

definition container_networks :: "string list" where
  "container_networks =
     [''127.0.0.1'', ''::1'', ''172.'', ''192.168.'', ''10.'', ''169.254.'']"

text \<open>\<^verbatim>\<open>any(dns_ip.startswith(network) for network in container_networks)\<close>\<close>

definition is_container_dns :: "string \<Rightarrow> bool" where
  "is_container_dns dns_ip = list_ex (\<lambda>network. prefix network dns_ip) container_networks"

subsection \<open>\<^verbatim>\<open>DNSConfigSensor._get_system_dns_servers\<close>\<close>

text \<open>
  A detection method is a coroutine that runs a subprocess, reads a file or queries an
  HTTP API. What the chain sees of it is its \<^verbatim>\<open>__name__\<close> and the outcome of awaiting
  it: an exception, or a list of candidate strings. The state of the loop is the triple
  of \<^verbatim>\<open>dns_servers\<close>, \<^verbatim>\<open>source_used\<close> and the log of the methods awaited so far
  (the log is the model's record of the calls; the source keeps none).
\<close>

type_synonym dns_method = "string \<times> (py_exn + string list)"

type_synonym chain_state = "string list \<times> string \<times> string list"

fun run_methods :: "dns_method list \<Rightarrow> chain_state \<Rightarrow> chain_state" where
  "run_methods [] st = st"
| "run_methods ((name, outcome) # methods) (dns_servers, source_used, calls) =
     (case outcome of
        Inl e \<Rightarrow> run_methods methods (dns_servers, source_used, calls @ [name])
      | Inr detected_dns \<Rightarrow>
          if detected_dns \<noteq> [] then
            (let filtered_dns = filter (\<lambda>dns. \<not> is_container_dns dns) detected_dns
             in if filtered_dns \<noteq> []
                then (dns_servers @ filtered_dns, name, calls @ [name])
                else run_methods methods (dns_servers, source_used, calls @ [name]))
          else run_methods methods (dns_servers, source_used, calls @ [name]))"

text \<open>The loop followed by the fallback of lines 91 to 97, for any list of methods.\<close>

definition detect_dns_servers :: "dns_method list \<Rightarrow> chain_state" where
  "detect_dns_servers methods =
     (case run_methods methods ([], ''unknown'', []) of
        (dns_servers, source_used, calls) \<Rightarrow>
          if dns_servers = []
          then ([''8.8.8.8'', ''1.1.1.1''], ''public_fallback'', calls)
          else (dns_servers, source_used, calls))"

text \<open>\<^verbatim>\<open>_get_common_dns_servers\<close>, the only method that makes no external call.\<close>

definition get_common_dns_servers :: "string list" where
  "get_common_dns_servers = [''8.8.8.8'', ''1.1.1.1'', ''9.9.9.9'']"

text \<open>
  The outcomes of the five methods that do make an external call, as the environment
  gives them during one run of the chain.
\<close>

record dns_env =
  supervisor_dns :: "py_exn + string list"
  docker_host_dns :: "py_exn + string list"
  gateway_dns :: "py_exn + string list"
  systemd_resolve_dns :: "py_exn + string list"
  resolv_conf_dns :: "py_exn + string list"

definition dns_methods :: "dns_env \<Rightarrow> dns_method list" where
  "dns_methods env =
     [(''_get_supervisor_dns'', supervisor_dns env),
      (''_get_docker_host_dns'', docker_host_dns env),
      (''_get_gateway_dns'', gateway_dns env),
      (''_get_systemd_resolve_dns'', systemd_resolve_dns env),
      (''_get_resolv_conf_dns'', resolv_conf_dns env),
      (''_get_common_dns_servers'', Inr get_common_dns_servers)]"

definition get_system_dns_servers :: "dns_env \<Rightarrow> chain_state" where
  "get_system_dns_servers env = detect_dns_servers (dns_methods env)"

text \<open>What one method contributes: its candidates that pass the exclusion predicate.\<close>

definition filtered_of :: "dns_method \<Rightarrow> string list" where
  "filtered_of m =
     (case snd m of Inl e \<Rightarrow> [] | Inr detected_dns \<Rightarrow>
        filter (\<lambda>dns. \<not> is_container_dns dns) detected_dns)"

section \<open>The samplers: latency, packet loss and jitter (sensors.py)\<close>

subsection \<open>Python's \<^verbatim>\<open>round(x, 2)\<close>, \<^verbatim>\<open>min\<close> and \<^verbatim>\<open>max\<close>\<close>

text \<open>
  \<^verbatim>\<open>round\<close> rounds the value of its argument to the nearest multiple of \<open>1/100\<close>, a
  tie going to the even neighbour, and returns the double nearest to that decimal, which
  the model names by the decimal: \<open>round_half_even\<close> of a hundred times the value, over
  a hundred.
\<close>

definition round_half_even :: "real \<Rightarrow> int" where
  "round_half_even y =
     (let f = \<lfloor>y\<rfloor>; d = y - of_int f
      in if d < 1 / 2 then f
         else if 1 / 2 < d then f + 1
         else if even f then f else f + 1)"

definition py_round2 :: "real \<Rightarrow> real" where
  "py_round2 x = of_int (round_half_even (x * 100)) / 100"

text \<open>
  \<^verbatim>\<open>min\<close> and \<^verbatim>\<open>max\<close> of a list; Python raises on the empty list, and the source
  calls them on a non-empty list only.
\<close>

fun py_min :: "real list \<Rightarrow> real" where
  "py_min (x # xs) = fold min xs x"

fun py_max :: "real list \<Rightarrow> real" where
  "py_max (x # xs) = fold max xs x"

subsection \<open>Double arithmetic\<close>

text \<open>
  The samplers compute with doubles. \<open>dbl x\<close> is the double nearest to the real \<open>x\<close>, a
  tie going to the even mantissa: the result of one operation of the source on doubles
  is \<open>dbl\<close> of the exact result. \<open>binade n x\<close> is the exponent of the power of two at or
  below a positive \<open>x\<close>, found in at most \<open>n\<close> steps; a double has 53 bits above the ulp
  of its binade, and binades below \<open>-1022\<close> share the ulp of that one. Results beyond the
  largest double, infinities and NaN are not modelled: round trip times and percentages
  are far from them.
\<close>

fun binade :: "nat \<Rightarrow> real \<Rightarrow> int" where
  "binade 0 x = 0"
| "binade (Suc n) x =
     (if 2 \<le> x then binade n (x / 2) + 1
      else if x < 1 then binade n (2 * x) - 1
      else 0)"

definition pow2 :: "int \<Rightarrow> real" where
  "pow2 e = (if 0 \<le> e then 2 ^ nat e else 1 / 2 ^ nat (- e))"

definition dbl :: "real \<Rightarrow> real" where
  "dbl x =
     (if x = 0 then 0
      else (let e = max (binade 1100 \<bar>x\<bar>) (- 1022) - 52
            in of_int (round_half_even (x / pow2 e)) * pow2 e))"

text \<open>
  Two operations of the source are not the same on every installation, and are
  parameters of the model. \<^verbatim>\<open>sum\<close> adds the doubles from left to right in CPython up
  to 3.11 and with a compensation term from 3.12. \<^verbatim>\<open>**\<close> on doubles is the C library's
  \<^verbatim>\<open>pow\<close>, which need not return the nearest double.
\<close>

record platform =
  py_sum :: "real list \<Rightarrow> real"
  py_pow :: "real \<Rightarrow> real \<Rightarrow> real"

text \<open>
  A platform for examples: the sum from left to right, starting from the integer 0, and
  a power that returns the nearest double at the two exponents the source uses.
\<close>

definition left_to_right_sum :: "real list \<Rightarrow> real" where
  "left_to_right_sum xs = fold (\<lambda>x total. dbl (total + x)) xs 0"

definition nearest_pow :: "real \<Rightarrow> real \<Rightarrow> real" where
  "nearest_pow x y = dbl (if y = 2 then x * x else if y = 1 / 2 then sqrt x else x powr y)"

definition reference_platform :: platform where
  "reference_platform = \<lparr>py_sum = left_to_right_sum, py_pow = nearest_pow\<rparr>"

subsection \<open>The sampling loops\<close>

text \<open>
  \<^verbatim>\<open>_ping_host\<close> runs the ping utility and catches every exception: it returns the round
  trip time in milliseconds, a double, or \<^verbatim>\<open>None\<close>. The environment of one run of
  \<^verbatim>\<open>get_data\<close> is the function \<open>ping\<close>: \<open>ping i\<close> is what the call of
  \<^verbatim>\<open>_ping_host\<close> in iteration \<open>i\<close> of \<^verbatim>\<open>for _ in range(count)\<close> returns.
\<close>

definition collect_latencies :: "int \<Rightarrow> (nat \<Rightarrow> real option) \<Rightarrow> real list" where
  "collect_latencies count ping =
     fold (\<lambda>i latencies. case ping i of None \<Rightarrow> latencies | Some latency \<Rightarrow> latencies @ [latency])
       [0..<nat count] []"

definition count_successful_pings :: "int \<Rightarrow> (nat \<Rightarrow> real option) \<Rightarrow> int" where
  "count_successful_pings count ping =
     fold (\<lambda>i successful_pings. case ping i of None \<Rightarrow> successful_pings | Some latency \<Rightarrow> successful_pings + 1)
       [0..<nat count] 0"

text \<open>
  An environment for examples: the pings answer as the list says, and fail after its
  end.
\<close>

definition replies :: "real option list \<Rightarrow> nat \<Rightarrow> real option" where
  "replies xs i = (if i < length xs then xs ! i else None)"

subsection \<open>\<^verbatim>\<open>LatencySensor.get_data\<close>\<close>

text \<open>
  Nothing in the \<^verbatim>\<open>try\<close> block raises for an integer \<^verbatim>\<open>count\<close>, so the
  \<^verbatim>\<open>except\<close> branch has no counterpart here. The division of the sum by the length
  is a division of doubles; \<^verbatim>\<open>min\<close> and \<^verbatim>\<open>max\<close> compare and do not round.
\<close>

definition latency_get_data :: "platform \<Rightarrow> int \<Rightarrow> (nat \<Rightarrow> real option) \<Rightarrow> pydict" where
  "latency_get_data pf count ping =
     (let latencies = collect_latencies count ping
      in if latencies \<noteq> [] then
           (let avg_latency = dbl (py_sum pf latencies / real (length latencies))
            in [(''average'', PFloat (py_round2 avg_latency)),
                (''min'', PFloat (py_round2 (py_min latencies))),
                (''max'', PFloat (py_round2 (py_max latencies))),
                (''status'', PStr ''online''),
                (''error'', PNone)])
         else
           [(''average'', PInt 0),
            (''min'', PInt 0),
            (''max'', PInt 0),
            (''status'', PStr ''offline''),
            (''error'', PStr ''All ping attempts failed'')])"

subsection \<open>\<^verbatim>\<open>PacketLossSensor.get_data\<close>\<close>

text \<open>
  The division by \<^verbatim>\<open>count\<close> raises \<^verbatim>\<open>ZeroDivisionError\<close> when \<^verbatim>\<open>count\<close> is
  zero; the \<^verbatim>\<open>except\<close> branch reports it with Python's message. The quotient of the
  two integers is the double nearest to it, and so is its product with 100.
\<close>

definition packet_loss_get_data :: "int \<Rightarrow> (nat \<Rightarrow> real option) \<Rightarrow> pydict" where
  "packet_loss_get_data count ping =
     (let successful_pings = count_successful_pings count ping
      in if count = 0 then
           [(''average'', PInt 100),
            (''status'', PStr ''offline''),
            (''error'', PStr ''division by zero'')]
         else
           (let packet_loss =
                  dbl (dbl (real_of_int (count - successful_pings) / real_of_int count) * 100)
            in [(''average'', PFloat (py_round2 packet_loss)),
                (''status'', PStr (if packet_loss < 50 then ''online'' else ''offline'')),
                (''error'', PNone)]))"

subsection \<open>\<^verbatim>\<open>JitterSensor.get_data\<close>\<close>

definition jitter_get_data :: "platform \<Rightarrow> int \<Rightarrow> (nat \<Rightarrow> real option) \<Rightarrow> pydict" where
  "jitter_get_data pf count ping =
     (let latencies = collect_latencies count ping
      in if length latencies < 2 then
           [(''average'', PInt 0),
            (''status'', PStr ''offline''),
            (''error'', PStr ''Insufficient data for jitter calculation'')]
         else
           (let mean_latency = dbl (py_sum pf latencies / real (length latencies));
                variance =
                  dbl (py_sum pf (map (\<lambda>x. py_pow pf (dbl (x - mean_latency)) 2) latencies)
                        / real (length latencies));
                jitter = py_pow pf variance (1 / 2)
            in [(''average'', PFloat (py_round2 jitter)),
                (''status'', PStr ''online''),
                (''error'', PNone)]))"

text \<open>
  The words of the specification: the successful samples among the \<open>k\<close> issued; the
  population standard deviation of a list of values; and that standard deviation as the
  arithmetic of a platform computes it, every step a double.
\<close>

definition successful_samples :: "nat \<Rightarrow> (nat \<Rightarrow> real option) \<Rightarrow> real list" where
  "successful_samples k ping = [latency. Some latency \<leftarrow> map ping [0..<k]]"

definition population_std :: "real list \<Rightarrow> real" where
  "population_std xs =
     sqrt ((\<Sum>x\<leftarrow>xs. (x - sum_list xs / real (length xs)) ^ 2) / real (length xs))"

definition double_population_std :: "platform \<Rightarrow> real list \<Rightarrow> real" where
  "double_population_std pf xs =
     (let n = real (length xs);
          mean = dbl (py_sum pf xs / n);
          squares = map (\<lambda>x. py_pow pf (dbl (x - mean)) 2) xs
      in py_pow pf (dbl (py_sum pf squares / n)) (1 / 2))"

section \<open>Route stability sensor (sensors.py)\<close>

text \<open>
  The sensor object keeps \<^verbatim>\<open>route_history\<close>, a list of routes, each a list of hop
  addresses; \<^verbatim>\<open>max_history\<close> is set to 10 in the constructor, where the history starts
  empty.
\<close>

definition max_history :: nat where
  "max_history = 10"

subsection \<open>\<^verbatim>\<open>RouteStabilitySensor._calculate_stability\<close>\<close>

definition calculate_stability :: "string list list \<Rightarrow> real" where
  "calculate_stability route_history =
     (if length route_history < 2 then 100
      else
        (let current_route = last route_history;
             (matches, total_comparisons) =
               fold (\<lambda>i (matches, total_comparisons).
                       (if current_route = route_history ! i then matches + 1 else matches,
                        total_comparisons + 1))
                 [0..<length route_history - 1] (0::nat, 0::nat)
         in if total_comparisons = 0 then 100
            else (real matches / real total_comparisons) * 100))"

subsection \<open>\<^verbatim>\<open>RouteStabilitySensor.get_data\<close>\<close>

text \<open>
  \<^verbatim>\<open>_get_route\<close> runs traceroute and catches every exception: it returns the list of
  hops, or \<^verbatim>\<open>None\<close>. The test \<^verbatim>\<open>if current_route:\<close> is false for \<^verbatim>\<open>None\<close> and for
  the empty list. The model takes what \<^verbatim>\<open>_get_route\<close> returned and the history, and
  returns the report with the history after the call.
\<close>

definition route_failed :: pydict where
  "route_failed =
     [(''overall_stability'', PInt 0),
      (''route_changes'', PInt 0),
      (''current_route'', PStr ''Unknown''),
      (''status'', PStr ''offline''),
      (''error'', PStr ''Failed to get route'')]"

definition route_stability_get_data ::
    "string list option \<Rightarrow> string list list \<Rightarrow> pydict \<times> string list list" where
  "route_stability_get_data got route_history =
     (case got of
        None \<Rightarrow> (route_failed, route_history)
      | Some current_route \<Rightarrow>
          if current_route \<noteq> [] then
            (let appended = route_history @ [current_route];
                 route_history' =
                   (if length appended > max_history then tl appended else appended);
                 stability = calculate_stability route_history'
             in ([(''overall_stability'', PFloat (py_round2 stability)),
                  (''route_changes'', PInt (int (length route_history') - 1)),
                  (''current_route'', PList (map PStr current_route)),
                  (''status'', PStr ''online''),
                  (''error'', PNone)],
                 route_history'))
          else (route_failed, route_history))"

text \<open>The history after a sequence of invocations, from the history given.\<close>

definition run_traces :: "string list option list \<Rightarrow> string list list \<Rightarrow> string list list" where
  "run_traces gots route_history =
     fold (\<lambda>got h. snd (route_stability_get_data got h)) gots route_history"

text \<open>
  The words of the specification: the score of a history whose last snapshot is the
  current one.
\<close>

definition stability_score :: "string list list \<Rightarrow> real" where
  "stability_score h =
     (if length h < 2 then 100
      else 100 * real (length (filter (\<lambda>s. s = last h) (butlast h))) / real (length h - 1))"

text \<open>Two routes for examples.\<close>

definition route_a :: "string list" where
  "route_a = [''192.0.2.1'', ''198.51.100.7'', ''8.8.8.8'']"

definition route_b :: "string list" where
  "route_b = [''192.0.2.1'', ''203.0.113.9'', ''8.8.8.8'']"

section \<open>Address lookup: the provider chain (ip_info.py)\<close>

subsection \<open>\<^verbatim>\<open>IPInfoManager._initialize_providers\<close>\<close>

record ip_info_config =
  token :: "string option"
  api_key :: "string option"

text \<open>
  The keys of \<^verbatim>\<open>self.providers\<close>, in insertion order. The ipgeolocation provider is
  created only when its \<^verbatim>\<open>api_key\<close> is a non-empty string.
\<close>

definition initialize_providers :: "(string \<rightharpoonup> ip_info_config) \<Rightarrow> string list" where
  "initialize_providers config =
     (if ''ipinfo'' \<in> dom config then [''ipinfo''] else [])
     @ (if ''ipapi'' \<in> dom config then [''ipapi''] else [])
     @ (case config ''ipgeolocation'' of
          None \<Rightarrow> []
        | Some c \<Rightarrow>
            (case api_key c of
               None \<Rightarrow> []
             | Some k \<Rightarrow> if k \<noteq> [] then [''ipgeolocation''] else []))"

subsection \<open>\<^verbatim>\<open>IPInfoManager.get_ip_info\<close>\<close>

definition fallback_order :: "string list" where
  "fallback_order = [''ipapi'', ''ipinfo'', ''ipgeolocation'']"

definition sources_to_try :: "string list \<Rightarrow> string option \<Rightarrow> string list" where
  "sources_to_try providers preferred_source =
     fold (\<lambda>source sources.
             if source \<in> set providers \<and> source \<notin> set sources
             then sources @ [source] else sources)
       fallback_order
       (case preferred_source of
          None \<Rightarrow> []
        | Some p \<Rightarrow> if p \<noteq> [] \<and> p \<in> set providers then [p] else [])"

text \<open>
  \<open>fetch source\<close> is the outcome of awaiting \<^verbatim>\<open>self.providers[source].get_ip_info()\<close>:
  the normalized record, or the exception the provider raised. The loop keeps the last
  exception; the text of the aggregate error formats it with \<^verbatim>\<open>str\<close>, and formats
  \<^verbatim>\<open>None\<close> as \<open>None\<close> when no provider was tried.
\<close>

fun try_sources ::
    "(string \<Rightarrow> py_exn + pydict) \<Rightarrow> string list \<Rightarrow> py_exn option \<Rightarrow> py_exn + pydict" where
  "try_sources fetch [] last_error =
     Inl (PyException (''All IP info sources failed. Last error: ''
            @ (case last_error of None \<Rightarrow> ''None'' | Some e \<Rightarrow> str_exn e)))"
| "try_sources fetch (source # sources) last_error =
     (case fetch source of
        Inr data \<Rightarrow> Inr data
      | Inl e \<Rightarrow> try_sources fetch sources (Some e))"

definition manager_get_ip_info ::
    "string list \<Rightarrow> (string \<Rightarrow> py_exn + pydict) \<Rightarrow> string option \<Rightarrow> py_exn + pydict" where
  "manager_get_ip_info providers fetch preferred_source =
     try_sources fetch (sources_to_try providers preferred_source) None"

section \<open>The monitor (isp_health.py)\<close>

text \<open>
  A monitor holds the configured address source, the providers of its manager and its
  sensors, by name in insertion order. The world of one collection cycle gives the
  outcome of each external call: of each provider, of each sensor's \<^verbatim>\<open>get_data\<close>,
  whether the 30 second ceiling of \<^verbatim>\<open>asyncio.wait_for\<close> expired, and the time stamp.
\<close>

record monitor =
  ip_info_source :: string
  providers :: "string list"
  sensors :: "string list"

record world =
  fetch :: "string \<Rightarrow> py_exn + pydict"
  wait_for_timed_out :: bool
  now :: string
  sensor_get_data :: "string \<Rightarrow> py_exn + pydict"

subsection \<open>\<^verbatim>\<open>ISPHealthMonitor._initialize_sensors\<close>\<close>

record sensors_config =
  dns_config_enabled :: bool
  latency_enabled :: bool
  packet_loss_enabled :: bool
  jitter_enabled :: bool
  throughput_enabled :: bool
  dns_reliability_enabled :: bool
  route_stability_enabled :: bool

definition initialize_sensors :: "sensors_config \<Rightarrow> string list" where
  "initialize_sensors c =
     (if dns_config_enabled c then [''dns_config''] else [])
     @ (if latency_enabled c then [''latency''] else [])
     @ (if packet_loss_enabled c then [''packet_loss''] else [])
     @ (if jitter_enabled c then [''jitter''] else [])
     @ (if throughput_enabled c then [''throughput''] else [])
     @ (if dns_reliability_enabled c then [''dns_reliability''] else [])
     @ (if route_stability_enabled c then [''route_stability''] else [])"

subsection \<open>\<^verbatim>\<open>ISPHealthMonitor.get_ip_information\<close>\<close>

definition get_ip_information :: "monitor \<Rightarrow> world \<Rightarrow> pydict" where
  "get_ip_information m w =
     (if wait_for_timed_out w then
        [(''status'', PStr ''error''),
         (''error'', PStr ''Request timed out''),
         (''timestamp'', PStr (now w))]
      else
        (case manager_get_ip_info (providers m) (fetch w) (Some (ip_info_source m)) of
           Inr result \<Rightarrow> result
         | Inl e \<Rightarrow>
             [(''status'', PStr ''error''),
              (''error'', PStr (str_exn e)),
              (''timestamp'', PStr (now w))]))"

subsection \<open>\<^verbatim>\<open>ISPHealthMonitor.get_all_sensor_data\<close>\<close>

text \<open>
  \<^verbatim>\<open>results[k] = v\<close> on a dictionary in insertion order is \<open>AList.update\<close>. The loop
  state is \<^verbatim>\<open>results\<close> with the log of the sensors awaited so far (the log is the
  model's record of the calls).
\<close>

fun collect_sensors ::
    "(string \<Rightarrow> py_exn + pydict) \<Rightarrow> string list \<Rightarrow> pydict \<times> string list
       \<Rightarrow> pydict \<times> string list" where
  "collect_sensors get_data [] st = st"
| "collect_sensors get_data (sensor_name # rest) (results, calls) =
     collect_sensors get_data rest
       (case get_data sensor_name of
          Inr data \<Rightarrow> AList.update sensor_name (PDict data) results
        | Inl e \<Rightarrow>
            AList.update sensor_name
              (PDict [(''status'', PStr ''error''), (''error'', PStr (str_exn e))]) results,
        calls @ [sensor_name])"

definition get_all_sensor_data :: "monitor \<Rightarrow> world \<Rightarrow> pydict \<times> string list" where
  "get_all_sensor_data m w =
     collect_sensors (sensor_get_data w) (sensors m)
       (AList.update ''ip_info'' (PDict (get_ip_information m w)) [], [])"

text \<open>The entry the loop stores for a sensor, by the outcome of its \<^verbatim>\<open>get_data\<close>.\<close>

definition entry_of :: "py_exn + pydict \<Rightarrow> pyval" where
  "entry_of outcome =
     (case outcome of
        Inr data \<Rightarrow> PDict data
      | Inl e \<Rightarrow> PDict [(''status'', PStr ''error''), (''error'', PStr (str_exn e))])"

text \<open>Worlds for examples.\<close>

definition all_providers_down :: "string \<Rightarrow> py_exn + pydict" where
  "all_providers_down source = Inl (PyException (''HTTP 503: '' @ source))"

definition latency_raises :: "string \<Rightarrow> py_exn + pydict" where
  "latency_raises sensor_name =
     (if sensor_name = ''latency'' then Inl (PyException ''boom'')
      else Inr [(''status'', PStr ''online'')])"

section \<open>The normalizers (ip_info.py)\<close>

subsection \<open>\<^verbatim>\<open>IPAPIProvider.normalize_data\<close>\<close>

text \<open>\<open>stamp\<close> is the value of \<^verbatim>\<open>datetime.now().isoformat()\<close> at the call.\<close>

definition ipapi_normalize_data :: "string \<Rightarrow> pydict \<Rightarrow> pydict" where
  "ipapi_normalize_data stamp raw_data =
     [(''ip'', dict_get raw_data ''query''),
      (''hostname'', dict_get raw_data ''reverse''),
      (''city'', dict_get raw_data ''city''),
      (''region'', dict_get raw_data ''regionName''),
      (''country'', dict_get raw_data ''country''),
      (''latitude'', dict_get raw_data ''lat''),
      (''longitude'', dict_get raw_data ''lon''),
      (''organization'', dict_get raw_data ''isp''),
      (''postal_code'', dict_get raw_data ''zip''),
      (''timezone'', dict_get raw_data ''timezone''),
      (''source'', PStr ''ip-api.com''),
      (''timestamp'', PStr stamp)]"

subsection \<open>\<^verbatim>\<open>IPInfoIOProvider.normalize_data\<close>\<close>

text \<open>\<^verbatim>\<open>s.split(sep)\<close> for a separator of one character.\<close>

fun split_on :: "char \<Rightarrow> string \<Rightarrow> string list" where
  "split_on sep [] = [[]]"
| "split_on sep (x # xs) =
     (if x = sep then [] # split_on sep xs
      else (case split_on sep xs of
              [] \<Rightarrow> [[x]]
            | w # ws \<Rightarrow> (x # w) # ws))"

text \<open>The name of the type of a value, as Python prints it in an \<^verbatim>\<open>AttributeError\<close>.\<close>

fun type_name :: "pyval \<Rightarrow> string" where
  "type_name PNone = ''NoneType''"
| "type_name (PBool b) = ''bool''"
| "type_name (PInt i) = ''int''"
| "type_name (PFloat x) = ''float''"
| "type_name (PStr s) = ''str''"
| "type_name (PList xs) = ''list''"
| "type_name (PDict d) = ''dict''"

definition quoted :: "string \<Rightarrow> string" where
  "quoted s = [CHR 0x27] @ s @ [CHR 0x27]"

definition ipinfo_record :: "pydict \<Rightarrow> pyval \<Rightarrow> pyval \<Rightarrow> string \<Rightarrow> pydict" where
  "ipinfo_record raw_data lat lon stamp =
     [(''ip'', dict_get raw_data ''ip''),
      (''hostname'', dict_get raw_data ''hostname''),
      (''city'', dict_get raw_data ''city''),
      (''region'', dict_get raw_data ''region''),
      (''country'', dict_get raw_data ''country''),
      (''latitude'', lat),
      (''longitude'', lon),
      (''organization'', dict_get raw_data ''org''),
      (''postal_code'', dict_get raw_data ''postal''),
      (''timezone'', dict_get raw_data ''timezone''),
      (''source'', PStr ''ipinfo.io''),
      (''timestamp'', PStr stamp)]"

text \<open>
  \<^verbatim>\<open>raw_data.get("loc", "").split(",")\<close> raises \<^verbatim>\<open>AttributeError\<close> when the value
  under \<^verbatim>\<open>loc\<close> is not a string, and \<^verbatim>\<open>float\<close> raises \<^verbatim>\<open>ValueError\<close> on a string
  that is not a number. Python's \<^verbatim>\<open>float\<close> on strings is a parameter, \<open>py_float\<close>,
  with \<open>None\<close> for a string it rejects.
\<close>

definition ipinfo_normalize_data ::
    "(string \<Rightarrow> real option) \<Rightarrow> string \<Rightarrow> pydict \<Rightarrow> py_exn + pydict" where
  "ipinfo_normalize_data py_float stamp raw_data =
     (case (case map_of raw_data ''loc'' of None \<Rightarrow> PStr [] | Some v \<Rightarrow> v) of
        PStr s \<Rightarrow>
          (let loc = split_on CHR '','' s
           in if length loc = 2 then
                (case py_float (loc ! 0) of
                   None \<Rightarrow>
                     Inl (PyException
                            (''could not convert string to float: '' @ quoted (loc ! 0)))
                 | Some lat \<Rightarrow>
                     (case py_float (loc ! 1) of
                        None \<Rightarrow>
                          Inl (PyException
                                 (''could not convert string to float: '' @ quoted (loc ! 1)))
                      | Some lon \<Rightarrow>
                          Inr (ipinfo_record raw_data (PFloat lat) (PFloat lon) stamp)))
              else Inr (ipinfo_record raw_data PNone PNone stamp))
      | v \<Rightarrow>
          Inl (PyException
                 (quoted (type_name v) @ '' object has no attribute '' @ quoted ''split'')))"

text \<open>Payloads for examples, with a \<open>float\<close> that knows their two coordinates.\<close>

definition ipapi_payload :: pydict where
  "ipapi_payload =
     [(''status'', PStr ''success''),
      (''query'', PStr ''203.0.113.5''),
      (''city'', PStr ''Berlin''),
      (''regionName'', PStr ''Berlin''),
      (''country'', PStr ''Germany''),
      (''lat'', PFloat (5252 / 100)),
      (''lon'', PFloat (134 / 10)),
      (''isp'', PStr ''Example Net''),
      (''zip'', PStr ''10115''),
      (''timezone'', PStr ''Europe/Berlin'')]"

definition ipinfo_payload :: pydict where
  "ipinfo_payload =
     [(''ip'', PStr ''203.0.113.5''),
      (''city'', PStr ''Berlin''),
      (''region'', PStr ''Berlin''),
      (''country'', PStr ''DE''),
      (''loc'', PStr ''52.52,13.4''),
      (''org'', PStr ''AS64500 Example Net''),
      (''postal'', PStr ''10115''),
      (''timezone'', PStr ''Europe/Berlin'')]"

definition example_float :: "string \<Rightarrow> real option" where
  "example_float s =
     (if s = ''52.52'' then Some (5252 / 100)
      else if s = ''13.4'' then Some (134 / 10)
      else None)"

section \<open>The coordinator (coordinator.py)\<close>

subsection \<open>\<^verbatim>\<open>ISPHealthDataUpdateCoordinator._get_mock_data\<close>\<close>

text \<open>
  \<open>clock i\<close> is the value of call number \<open>i\<close> of \<^verbatim>\<open>datetime.now().isoformat()\<close>
  within the function, in the order of evaluation of the dict literal;
  \<open>update_interval\<close> is \<^verbatim>\<open>self.entry.data.get(CONF_UPDATE_INTERVAL, 60)\<close>.
\<close>

text \<open>The eight entries of the literal, each with the time stamp of its own call.\<close>

definition mock_ip_info :: "string \<Rightarrow> pydict" where
  "mock_ip_info stamp =
     [(''ip'', PStr ''192.168.1.1''),
      (''hostname'', PStr ''mock.example.com''),
      (''city'', PStr ''Test City''),
      (''region'', PStr ''Test Region''),
      (''country'', PStr ''US''),
      (''latitude'', PFloat (407128 / 10000)),
      (''longitude'', PFloat (- (740060 / 10000))),
      (''organization'', PStr ''Test ISP''),
      (''postal_code'', PStr ''10001''),
      (''timezone'', PStr ''America/New_York''),
      (''source'', PStr ''mock''),
      (''status'', PStr ''online''),
      (''timestamp'', PStr stamp)]"

definition mock_dns_config :: "string \<Rightarrow> pydict" where
  "mock_dns_config stamp =
     [(''primary_dns'', PStr ''8.8.8.8''),
      (''secondary_dns'', PStr ''8.8.4.4''),
      (''all_dns_servers'', PList [PStr ''8.8.8.8'', PStr ''8.8.4.4'']),
      (''resolution_test'', PDict
         [(''success'', PBool True),
          (''success_rate'', PFloat 100),
          (''results'', PList [])]),
      (''status'', PStr ''online''),
      (''timestamp'', PStr stamp)]"

definition mock_latency :: "string \<Rightarrow> pydict" where
  "mock_latency stamp =
     [(''average'', PFloat (255 / 10)),
      (''minimum'', PFloat (201 / 10)),
      (''maximum'', PFloat (309 / 10)),
      (''results'', PList
         [PDict [(''target'', PStr ''8.8.8.8''),
                 (''latency_ms'', PFloat (255 / 10)),
                 (''success'', PBool True)]]),
      (''status'', PStr ''online''),
      (''timestamp'', PStr stamp)]"

definition mock_packet_loss :: "string \<Rightarrow> pydict" where
  "mock_packet_loss stamp =
     [(''average'', PFloat 0),
      (''minimum'', PFloat 0),
      (''maximum'', PFloat 0),
      (''results'', PList
         [PDict [(''target'', PStr ''8.8.8.8''),
                 (''packet_loss_percentage'', PFloat 0),
                 (''success'', PBool True)]]),
      (''status'', PStr ''online''),
      (''timestamp'', PStr stamp)]"

definition mock_jitter :: "string \<Rightarrow> pydict" where
  "mock_jitter stamp =
     [(''average'', PFloat (52 / 10)),
      (''minimum'', PFloat (31 / 10)),
      (''maximum'', PFloat (78 / 10)),
      (''results'', PList
         [PDict [(''target'', PStr ''8.8.8.8''),
                 (''jitter_ms'', PFloat (52 / 10)),
                 (''success'', PBool True)]]),
      (''status'', PStr ''online''),
      (''timestamp'', PStr stamp)]"

definition mock_throughput :: "string \<Rightarrow> pydict" where
  "mock_throughput stamp =
     [(''download_mbps'', PFloat 100),
      (''upload_mbps'', PFloat 20),
      (''server'', PDict
         [(''name'', PStr ''Test Server''),
          (''country'', PStr ''United States''),
          (''distance'', PFloat 50),
          (''latency'', PFloat 25)]),
      (''test_type'', PStr ''single_server''),
      (''status'', PStr ''online''),
      (''timestamp'', PStr stamp)]"

definition mock_dns_reliability :: "string \<Rightarrow> pydict" where
  "mock_dns_reliability stamp =
     [(''overall_success_rate'', PFloat 100),
      (''average_response_time'', PFloat (155 / 10)),
      (''results'', PList
         [PDict [(''server'', PStr ''8.8.8.8''),
                 (''success_rate'', PFloat 100),
                 (''average_response_time'', PFloat (155 / 10)),
                 (''success'', PBool True)]]),
      (''status'', PStr ''online''),
      (''timestamp'', PStr stamp)]"

definition mock_route_stability :: "string \<Rightarrow> pydict" where
  "mock_route_stability stamp =
     [(''overall_stability'', PFloat 1),
      (''total_route_changes'', PInt 0),
      (''average_hop_count'', PFloat 12),
      (''results'', PList
         [PDict [(''target'', PStr ''google.com''),
                 (''hop_count'', PInt 12),
                 (''route_stability'', PFloat 1),
                 (''hop_analysis'', PDict
                    [(''stable_hops'', PInt 12),
                     (''unstable_hops'', PInt 0),
                     (''new_hops'', PInt 0),
                     (''missing_hops'', PInt 0)]),
                 (''route_changes'', PInt 0),
                 (''success'', PBool True)]]),
      (''status'', PStr ''online''),
      (''timestamp'', PStr stamp)]"

definition get_mock_data :: "(nat \<Rightarrow> string) \<Rightarrow> pyval \<Rightarrow> pydict" where
  "get_mock_data clock update_interval =
     [(''last_update'', PStr (clock 0)),
      (''update_interval'', update_interval),
      (''sensors'', PDict
        [(''ip_info'', PDict (mock_ip_info (clock 1))),
         (''dns_config'', PDict (mock_dns_config (clock 2))),
         (''latency'', PDict (mock_latency (clock 3))),
         (''packet_loss'', PDict (mock_packet_loss (clock 4))),
         (''jitter'', PDict (mock_jitter (clock 5))),
         (''throughput'', PDict (mock_throughput (clock 6))),
         (''dns_reliability'', PDict (mock_dns_reliability (clock 7))),
         (''route_stability'', PDict (mock_route_stability (clock 8)))])]"

subsection \<open>\<^verbatim>\<open>ISPHealthDataUpdateCoordinator._async_update_data\<close>\<close>

text \<open>
  The statements of the \<^verbatim>\<open>try\<close> block before the call of
  \<^verbatim>\<open>get_all_sensor_data\<close> import the modules, build the configuration (validated by
  pydantic) and construct the monitor: \<open>built\<close> is their outcome, the monitor or the
  exception raised. \<^verbatim>\<open>get_all_sensor_data\<close> itself catches what its probes raise.
  Every exception of the block reaches the one \<^verbatim>\<open>except Exception\<close> clause, which
  returns the mock data.
\<close>

definition async_update_data ::
    "py_exn + monitor \<Rightarrow> world \<Rightarrow> (nat \<Rightarrow> string) \<Rightarrow> pyval \<Rightarrow> pydict" where
  "async_update_data built w clock update_interval =
     (case built of
        Inr m \<Rightarrow>
          [(''sensors'', PDict (fst (get_all_sensor_data m w))),
           (''last_update'', PStr (clock 0)),
           (''update_interval'', update_interval)]
      | Inl err \<Rightarrow> get_mock_data clock update_interval)"

text \<open>The metrics of a report, and the status a report gives for a metric.\<close>

definition metric_names :: "string list" where
  "metric_names =
     [''ip_info'', ''dns_config'', ''latency'', ''packet_loss'', ''jitter'', ''throughput'',
      ''dns_reliability'', ''route_stability'']"

definition metric_status :: "pydict \<Rightarrow> string \<Rightarrow> pyval option" where
  "metric_status report metric =
     (case map_of report ''sensors'' of
        Some (PDict sensors_data) \<Rightarrow>
          (case map_of sensors_data metric of
             Some (PDict entry) \<Rightarrow> map_of entry ''status''
           | _ \<Rightarrow> None)
      | _ \<Rightarrow> None)"

definition example_clock :: "nat \<Rightarrow> string" where
  "example_clock i = ''2026-01-01T00:00:00''"

section \<open>Properties of the detector chain\<close>

lemma filtered_of_simps:
  "filtered_of (name, Inl e) = []"
  "filtered_of (name, Inr detected_dns) = filter (\<lambda>dns. \<not> is_container_dns dns) detected_dns"
  by (simp_all add: filtered_of_def)

lemma run_methods_step_empty:
  "filtered_of m = [] \<Longrightarrow>
     run_methods (m # ms) (d, s, c) = run_methods ms (d, s, c @ [fst m])"
  by (cases m) (auto simp: filtered_of_def split: sum.splits)

lemma run_methods_step_accept:
  "filtered_of m \<noteq> [] \<Longrightarrow>
     run_methods (m # ms) (d, s, c) = (d @ filtered_of m, fst m, c @ [fst m])"
  by (cases m) (auto simp: filtered_of_def split: sum.splits)

lemma run_methods_all_empty:
  "\<forall>m \<in> set ms. filtered_of m = [] \<Longrightarrow>
     run_methods ms (d, s, c) = (d, s, c @ map fst ms)"
proof (induction ms arbitrary: c)
  case Nil
  show ?case by simp
next
  case (Cons m ms)
  then show ?case by (simp add: run_methods_step_empty del: run_methods.simps)
qed

lemma run_methods_first_accept:
  assumes "\<forall>p \<in> set pre. filtered_of p = []" and "filtered_of m \<noteq> []"
  shows "run_methods (pre @ m # post) (d, s, c) =
           (d @ filtered_of m, fst m, c @ map fst pre @ [fst m])"
  using assms(1)
proof (induction pre arbitrary: c)
  case Nil
  show ?case using assms(2) by (simp add: run_methods_step_accept del: run_methods.simps)
next
  case (Cons p pre)
  then show ?case by (simp add: run_methods_step_empty del: run_methods.simps)
qed

lemma run_methods_not_container:
  "\<forall>x \<in> set d. \<not> is_container_dns x \<Longrightarrow>
     \<forall>x \<in> set (fst (run_methods ms (d, s, c))). \<not> is_container_dns x"
proof (induction ms arbitrary: c)
  case Nil
  then show ?case by simp
next
  case (Cons m ms)
  show ?case
  proof (cases "filtered_of m = []")
    case True
    with Cons show ?thesis by (simp add: run_methods_step_empty del: run_methods.simps)
  next
    case False
    have "\<forall>x \<in> set (filtered_of m). \<not> is_container_dns x"
      by (cases m) (auto simp: filtered_of_def split: sum.splits)
    with False Cons.prems show ?thesis
      by (auto simp: run_methods_step_accept simp del: run_methods.simps)
  qed
qed

text \<open>
  Claim C2. The chain awaits its methods in the declared order. When every method before
  \<open>m\<close> contributes nothing after filtering and \<open>m\<close> contributes something, the chain
  returns exactly the filtered candidates of \<open>m\<close>, records the name of \<open>m\<close> as the
  source, and the methods awaited are those up to and including \<open>m\<close>, in order: no
  method of \<open>post\<close> is awaited. A method that raises contributes nothing, and the chain
  with a raising method is the chain with that method returning the empty list: the
  exception never leaves the chain (the result type has no error).
\<close>

theorem detector_chain_first_success_wins:
  assumes "\<forall>p \<in> set pre. filtered_of p = []" and "filtered_of m \<noteq> []"
  shows "detect_dns_servers (pre @ m # post) = (filtered_of m, fst m, map fst pre @ [fst m])
       \<and> filtered_of (name, Inl e) = []
       \<and> detect_dns_servers (xs @ (name, Inl e) # ys) = detect_dns_servers (xs @ (name, Inr []) # ys)"
proof -
  have a: "detect_dns_servers (pre @ m # post) = (filtered_of m, fst m, map fst pre @ [fst m])"
    using assms by (simp add: detect_dns_servers_def run_methods_first_accept)
  have step: "run_methods ((name, Inl e) # ys) st = run_methods ((name, Inr []) # ys) st" for st
    by (cases st) simp
  have "run_methods (xs @ (name, Inl e) # ys) st = run_methods (xs @ (name, Inr []) # ys) st" for st
  proof (induction xs arbitrary: st)
    case Nil
    show ?case using step by simp
  next
    case (Cons x xs)
    obtain d s c where st: "st = (d, s, c)" by (cases st) auto
    show ?case
    proof (cases "filtered_of x = []")
      case True
      then show ?thesis unfolding st
        by (simp add: run_methods_step_empty Cons.IH del: run_methods.simps)
    next
      case False
      then show ?thesis unfolding st
        by (simp add: run_methods_step_accept del: run_methods.simps)
    qed
  qed
  then have c: "detect_dns_servers (xs @ (name, Inl e) # ys) = detect_dns_servers (xs @ (name, Inr []) # ys)"
    by (simp add: detect_dns_servers_def)
  show ?thesis using a c by (simp add: filtered_of_simps)
qed

theorem detector_chain_first_success_wins_witness:
  "detect_dns_servers
     [(''m1'', Inr [''192.168.1.1'', ''127.0.0.1'']),
      (''m2'', Inr [''10.0.0.2'', ''9.9.9.9'']),
      (''m3'', Inr [''1.1.1.1''])]
   = ([''9.9.9.9''], ''m2'', [''m1'', ''m2''])
   \<and> detect_dns_servers [(''m1'', Inl (PyException ''boom'')), (''m2'', Inr [''9.9.9.9''])]
     = ([''9.9.9.9''], ''m2'', [''m1'', ''m2''])"
proof -
  have h1: "\<forall>p \<in> set [(''m1'', Inr [''192.168.1.1'', ''127.0.0.1''])]. filtered_of p = []"
    by (simp add: filtered_of_def is_container_dns_def container_networks_def)
  have h2: "filtered_of (''m2'', Inr [''10.0.0.2'', ''9.9.9.9'']) \<noteq> []"
    by (simp add: filtered_of_def is_container_dns_def container_networks_def)
  have f2: "filtered_of (''m2'', Inr [''10.0.0.2'', ''9.9.9.9'']) = [''9.9.9.9'']"
    by (simp add: filtered_of_def is_container_dns_def container_networks_def)
  have g1: "\<forall>p \<in> set [(''m1'', Inl (PyException ''boom''))]. filtered_of p = []"
    by (simp add: filtered_of_def)
  have g2: "filtered_of (''m2'', Inr [''9.9.9.9'']) \<noteq> []"
    by (simp add: filtered_of_def is_container_dns_def container_networks_def)
  have gf: "filtered_of (''m2'', Inr [''9.9.9.9'']) = [''9.9.9.9'']"
    by (simp add: filtered_of_def is_container_dns_def container_networks_def)
  show ?thesis
    using detector_chain_first_success_wins [OF h1 h2, of "[(''m3'', Inr [''1.1.1.1''])]" "''n''" "PyException ''e''" "[]" "[]"]
          detector_chain_first_success_wins [OF g1 g2, of "[]" "''n''" "PyException ''e''" "[]" "[]"]
    by (simp add: f2 gf)
qed

text \<open>
  Claim C7. When every method of the chain yields an empty filtered candidate list, the
  chain returns the fixed default list with source \<open>public_fallback\<close>, having awaited
  every method. The list of DNS servers returned is never empty, for any list of methods
  and in particular for the list of methods of the source.
\<close>

theorem dns_chain_exhaustion_fallback:
  "((\<forall>m \<in> set ms. filtered_of m = []) \<longrightarrow>
      detect_dns_servers ms = ([''8.8.8.8'', ''1.1.1.1''], ''public_fallback'', map fst ms))
   \<and> fst (detect_dns_servers ms) \<noteq> []
   \<and> fst (get_system_dns_servers env) \<noteq> []"
proof -
  have a: "(\<forall>m \<in> set ms. filtered_of m = []) \<longrightarrow>
      detect_dns_servers ms = ([''8.8.8.8'', ''1.1.1.1''], ''public_fallback'', map fst ms)"
    by (simp add: detect_dns_servers_def run_methods_all_empty)
  have b: "fst (detect_dns_servers ms') \<noteq> []" for ms'
    by (simp add: detect_dns_servers_def split: prod.splits)
  show ?thesis using a b by (simp add: get_system_dns_servers_def)
qed

theorem dns_chain_exhaustion_fallback_witness:
  "detect_dns_servers
     [(''_get_gateway_dns'', Inl (PyException ''ip: not found'')),
      (''_get_systemd_resolve_dns'', Inr []),
      (''_get_resolv_conf_dns'', Inr [''127.0.0.11''])]
   = ([''8.8.8.8'', ''1.1.1.1''], ''public_fallback'',
      [''_get_gateway_dns'', ''_get_systemd_resolve_dns'', ''_get_resolv_conf_dns''])"
  using dns_chain_exhaustion_fallback
    [of "[(''_get_gateway_dns'', Inl (PyException ''ip: not found'')),
          (''_get_systemd_resolve_dns'', Inr []),
          (''_get_resolv_conf_dns'', Inr [''127.0.0.11''])]"]
  by (simp add: filtered_of_def is_container_dns_def container_networks_def)

text \<open>
  Claim C10. The exclusion predicate holds of a candidate exactly when the candidate
  starts with one of the six fixed prefixes. So every string starting with \<open>172.\<close> is
  excluded, the public address \<open>172.217.0.1\<close> among them. The chain applies the predicate
  to the candidates of whichever method it accepts: no address it returns is excluded.
\<close>

theorem is_container_dns_prefix_test:
  "(is_container_dns d \<longleftrightarrow>
      (\<exists>p \<in> set [''127.0.0.1'', ''::1'', ''172.'', ''192.168.'', ''10.'', ''169.254.'']. prefix p d))
   \<and> is_container_dns (''172.'' @ rest)
   \<and> is_container_dns ''172.217.0.1''
   \<and> (\<forall>x \<in> set (fst (detect_dns_servers ms)). \<not> is_container_dns x)"
proof -
  have a: "is_container_dns d \<longleftrightarrow>
      (\<exists>p \<in> set [''127.0.0.1'', ''::1'', ''172.'', ''192.168.'', ''10.'', ''169.254.'']. prefix p d)"
    unfolding is_container_dns_def container_networks_def list_ex_iff ..
  have b: "is_container_dns (''172.'' @ rest)"
    by (simp add: is_container_dns_def container_networks_def)
  have c: "is_container_dns ''172.217.0.1''"
    by (simp add: is_container_dns_def container_networks_def)
  have "\<forall>x \<in> set (fst (run_methods ms ([], ''unknown'', []))). \<not> is_container_dns x"
    by (rule run_methods_not_container) simp
  then have d: "\<forall>x \<in> set (fst (detect_dns_servers ms)). \<not> is_container_dns x"
    by (auto simp: detect_dns_servers_def is_container_dns_def container_networks_def
             split: prod.splits)
  show ?thesis using a b c d by blast
qed

theorem is_container_dns_prefix_test_witness:
  "fst (detect_dns_servers
         [(''_get_gateway_dns'', Inr [''172.217.0.1'']),
          (''_get_resolv_conf_dns'', Inr [''172.217.0.1'', ''203.0.113.7''])])
     = [''203.0.113.7'']
   \<and> \<not> is_container_dns ''203.0.113.7''"
  using is_container_dns_prefix_test
    [of "''203.0.113.7''" "[]" "[(''_get_gateway_dns'', Inr [''172.217.0.1'']),
          (''_get_resolv_conf_dns'', Inr [''172.217.0.1'', ''203.0.113.7''])]"]
  by (simp add: detect_dns_servers_def is_container_dns_def container_networks_def)

section \<open>Properties of the samplers\<close>

lemma fold_collect:
  "fold (\<lambda>i latencies. case ping i of None \<Rightarrow> latencies | Some latency \<Rightarrow> latencies @ [latency]) is acc
     = acc @ [latency. Some latency \<leftarrow> map ping is]"
  by (induction "is" arbitrary: acc) (auto split: option.splits)

lemma fold_count:
  "fold (\<lambda>i successful_pings. case ping i of None \<Rightarrow> successful_pings | Some latency \<Rightarrow> successful_pings + 1) is (n::int)
     = n + int (length [latency. Some latency \<leftarrow> map ping is])"
  by (induction "is" arbitrary: n) (auto split: option.splits)

lemma collect_latencies_eq:
  "collect_latencies (int k) ping = successful_samples k ping"
  by (simp add: collect_latencies_def successful_samples_def fold_collect)

lemma count_successful_pings_eq:
  "count_successful_pings (int k) ping = int (length (successful_samples k ping))"
  by (simp add: count_successful_pings_def successful_samples_def fold_count)

lemma length_successes_le:
  "length [latency. Some latency \<leftarrow> map ping is] \<le> length is"
  by (induction "is") (auto split: option.splits)

lemma length_successful_samples_le: "length (successful_samples k ping) \<le> k"
  using length_successes_le [of ping "[0..<k]"] by (simp add: successful_samples_def)

lemma py_min_eq_Min: "xs \<noteq> [] \<Longrightarrow> py_min xs = Min (set xs)"
proof (cases xs)
  case Nil
  assume "xs \<noteq> []"
  with Nil show ?thesis by simp
next
  case (Cons a list)
  show ?thesis unfolding Cons py_min.simps by (rule Min.set_eq_fold [symmetric])
qed

lemma py_max_eq_Max: "xs \<noteq> [] \<Longrightarrow> py_max xs = Max (set xs)"
proof (cases xs)
  case Nil
  assume "xs \<noteq> []"
  with Nil show ?thesis by simp
next
  case (Cons a list)
  show ?thesis unfolding Cons py_max.simps by (rule Max.set_eq_fold [symmetric])
qed

lemma py_round2_100: "py_round2 100 = 100"
  by (simp add: py_round2_def round_half_even_def)

text \<open>
  Evaluating \<open>dbl\<close> at a numeral: the recursion of \<open>binade\<close> unfolded by a conditional
  equation, and the definitions it rests on.
\<close>

lemma binade_unfold:
  "binade n x =
     (if n = 0 then 0
      else if 2 \<le> x then binade (n - 1) (x / 2) + 1
      else if x < 1 then binade (n - 1) (2 * x) - 1
      else 0)"
  by (cases n) simp_all

lemmas dbl_eval = dbl_def binade_unfold pow2_def round_half_even_def Let_def

lemma dbl_1: "dbl 1 = 1"
  by (simp add: dbl_eval)

lemma dbl_100: "dbl 100 = 100"
  by (simp add: dbl_eval)

text \<open>
  Claim C1, as amended. For every sample count \<open>k \<ge> 1\<close>, with \<open>succ\<close> the successful
  samples among the \<open>k\<close> pings: the latency probe reports, each rounded to 2 decimal
  places, the average (the sum of \<open>succ\<close> divided by their number, in double arithmetic),
  the minimum and the maximum of \<open>succ\<close>, with status online; when no sample succeeds it
  reports status offline with the error \<open>All ping attempts failed\<close>. The packet-loss
  probe reports \<open>((k - successes) / k) 100\<close>, computed in double arithmetic and rounded to
  2 decimal places; its status is offline when that loss, before the rounding to 2
  places, is at least 50, and online otherwise. When all \<open>k\<close> samples fail the reported
  loss is 100 and the status offline.
\<close>

theorem sampler_latency_and_packet_loss:
  assumes "1 \<le> k" and "succ = successful_samples k ping"
  shows "latency_get_data pf (int k) ping =
           (if succ = []
            then [(''average'', PInt 0), (''min'', PInt 0), (''max'', PInt 0),
                  (''status'', PStr ''offline''), (''error'', PStr ''All ping attempts failed'')]
            else [(''average'', PFloat (py_round2 (dbl (py_sum pf succ / real (length succ))))),
                  (''min'', PFloat (py_round2 (Min (set succ)))),
                  (''max'', PFloat (py_round2 (Max (set succ)))),
                  (''status'', PStr ''online''), (''error'', PNone)])
       \<and> packet_loss_get_data (int k) ping =
           [(''average'',
               PFloat (py_round2 (dbl (dbl (real (k - length succ) / real k) * 100)))),
            (''status'', PStr (if 50 \<le> dbl (dbl (real (k - length succ) / real k) * 100)
                               then ''offline'' else ''online'')),
            (''error'', PNone)]
       \<and> (succ = [] \<longrightarrow>
            dict_get (packet_loss_get_data (int k) ping) ''average'' = PFloat 100
          \<and> dict_get (packet_loss_get_data (int k) ping) ''status'' = PStr ''offline'')"
proof -
  have lat: "latency_get_data pf (int k) ping =
           (if succ = []
            then [(''average'', PInt 0), (''min'', PInt 0), (''max'', PInt 0),
                  (''status'', PStr ''offline''), (''error'', PStr ''All ping attempts failed'')]
            else [(''average'', PFloat (py_round2 (dbl (py_sum pf succ / real (length succ))))),
                  (''min'', PFloat (py_round2 (Min (set succ)))),
                  (''max'', PFloat (py_round2 (Max (set succ)))),
                  (''status'', PStr ''online''), (''error'', PNone)])"
    unfolding latency_get_data_def collect_latencies_eq assms(2)[symmetric]
    by (simp add: Let_def py_min_eq_Min py_max_eq_Max)
  have le: "length succ \<le> k"
    using assms(2) length_successful_samples_le by simp
  define loss where "loss = dbl (dbl (real (k - length succ) / real k) * 100)"
  have q: "real_of_int (int k - int (length succ)) / real_of_int (int k)
             = real (k - length succ) / real k"
    using le by (simp add: of_nat_diff)
  have k0: "int k \<noteq> 0" using assms(1) by simp
  have "packet_loss_get_data (int k) ping =
           [(''average'', PFloat (py_round2 loss)),
            (''status'', PStr (if loss < 50 then ''online'' else ''offline'')),
            (''error'', PNone)]"
    unfolding packet_loss_get_data_def count_successful_pings_eq assms(2)[symmetric] Let_def q
      loss_def
    using k0 by simp
  then have loss: "packet_loss_get_data (int k) ping =
           [(''average'', PFloat (py_round2 loss)),
            (''status'', PStr (if 50 \<le> loss then ''offline'' else ''online'')),
            (''error'', PNone)]"
    by (simp add: not_less)
  have all_fail: "dict_get (packet_loss_get_data (int k) ping) ''average'' = PFloat 100
          \<and> dict_get (packet_loss_get_data (int k) ping) ''status'' = PStr ''offline''"
    if "succ = []"
  proof -
    have "real (k - length succ) / real k = 1" using that assms(1) by simp
    then have "loss = 100" unfolding loss_def by (simp add: dbl_1 dbl_100)
    then show ?thesis unfolding loss by (simp add: dict_get_def py_round2_100)
  qed
  show ?thesis using lat loss all_fail unfolding loss_def by blast
qed

text \<open>
  The theorem at three pings of which the second fails, on the reference platform.
\<close>

theorem sampler_latency_and_packet_loss_witness:
  "latency_get_data reference_platform 3 (replies [Some (25 / 2), None, Some 4]) =
     [(''average'', PFloat (825 / 100)), (''min'', PFloat 4), (''max'', PFloat (25 / 2)),
      (''status'', PStr ''online''), (''error'', PNone)]
   \<and> packet_loss_get_data 3 (replies [Some (25 / 2), None, Some 4]) =
     [(''average'', PFloat (3333 / 100)), (''status'', PStr ''online''), (''error'', PNone)]"
proof -
  have h: "[25 / 2, 4] = successful_samples 3 (replies [Some (25 / 2), None, Some 4])"
    by (simp add: successful_samples_def replies_def upt_rec)
  have k: "(1::nat) \<le> 3" by simp
  have s: "py_sum reference_platform [25 / 2, 4] = 33 / 2"
    by (simp add: reference_platform_def left_to_right_sum_def dbl_eval)
  have a: "py_round2 (dbl (33 / 2 / 2)) = 825 / 100"
    by (simp add: py_round2_def dbl_eval)
  have m: "py_round2 4 = 4" "py_round2 (25 / 2) = 25 / 2"
    by (simp_all add: py_round2_def round_half_even_def)
  have l: "dbl (dbl (1 / 3) * 100) < 50"
    "py_round2 (dbl (dbl (1 / 3) * 100)) = 3333 / 100"
    by (simp_all add: py_round2_def dbl_eval)
  have n: "real (length [25 / 2, 4 :: real]) = 2" "real (3 - length [25 / 2, 4 :: real]) / real 3 = 1 / 3"
    "Min (set [25 / 2, 4 :: real]) = 4" "Max (set [25 / 2, 4 :: real]) = 25 / 2"
    "int 3 = 3" "([25 / 2, 4 :: real] = []) = False"
    by simp_all
  show ?thesis
    using sampler_latency_and_packet_loss [OF k h, of reference_platform] l(1)
    unfolding n s a m l(2) if_False
    by (simp add: not_le)
qed

text \<open>
  Claim C1 as stated fails: with one success in three pings the loss is \<open>200 / 3\<close>, and
  the probe reports \<open>66.67\<close>.
\<close>

theorem packet_loss_average_not_exact_ratio:
  "dict_get (packet_loss_get_data 3 (replies [Some (25 / 2), None, None])) ''average''
     = PFloat (6667 / 100)
   \<and> dict_get (packet_loss_get_data 3 (replies [Some (25 / 2), None, None])) ''average''
     \<noteq> PFloat (100 * (3 - 1) / 3)"
proof -
  have c: "count_successful_pings 3 (replies [Some (25 / 2), None, None]) = 1"
    by (simp add: count_successful_pings_def replies_def upt_rec)
  have l: "py_round2 (dbl (dbl (real_of_int (3 - 1) / real_of_int 3) * 100)) = 6667 / 100"
    by (simp add: py_round2_def dbl_eval)
  have "packet_loss_get_data 3 (replies [Some (25 / 2), None, None])
          = [(''average'', PFloat (6667 / 100)),
             (''status'',
                PStr (if dbl (dbl (real_of_int (3 - 1) / real_of_int 3) * 100) < 50
                      then ''online'' else ''offline'')),
             (''error'', PNone)]"
    unfolding packet_loss_get_data_def c Let_def l by simp
  then show ?thesis by (simp add: dict_get_def)
qed

text \<open>
  Claim C5, as amended. With \<open>succ\<close> the successful samples among the \<open>k\<close> pings: with
  fewer than 2 of them the jitter probe reports status offline and the error
  \<open>Insufficient data for jitter calculation\<close>; with 2 or more it reports their
  population standard deviation (the square root of the mean of the squared deviations
  from the mean, dividing by the number of samples), as the double arithmetic of the
  platform computes it, rounded to 2 decimal places. With exactly one successful value
  \<open>v\<close>, a double, the jitter probe is offline with that error, while the latency probe
  over the same samples is online and reports \<open>v\<close> rounded to 2 decimal places as
  average, minimum and maximum (the sum of the one value being that value, as it is in
  every version of the interpreter).
\<close>

theorem jitter_needs_two_samples:
  assumes "succ = successful_samples k ping"
  shows "jitter_get_data pf (int k) ping =
           (if length succ < 2
            then [(''average'', PInt 0), (''status'', PStr ''offline''),
                  (''error'', PStr ''Insufficient data for jitter calculation'')]
            else [(''average'', PFloat (py_round2 (double_population_std pf succ))),
                  (''status'', PStr ''online''), (''error'', PNone)])
       \<and> (succ = [v] \<and> dbl v = v \<and> py_sum pf [v] = v \<longrightarrow>
            dict_get (jitter_get_data pf (int k) ping) ''status'' = PStr ''offline''
          \<and> dict_get (jitter_get_data pf (int k) ping) ''error''
              = PStr ''Insufficient data for jitter calculation''
          \<and> latency_get_data pf (int k) ping =
              [(''average'', PFloat (py_round2 v)), (''min'', PFloat (py_round2 v)),
               (''max'', PFloat (py_round2 v)), (''status'', PStr ''online''),
               (''error'', PNone)])"
proof -
  have jit: "jitter_get_data pf (int k) ping =
           (if length succ < 2
            then [(''average'', PInt 0), (''status'', PStr ''offline''),
                  (''error'', PStr ''Insufficient data for jitter calculation'')]
            else [(''average'', PFloat (py_round2 (double_population_std pf succ))),
                  (''status'', PStr ''online''), (''error'', PNone)])"
    unfolding jitter_get_data_def collect_latencies_eq assms [symmetric]
    by (simp add: Let_def double_population_std_def)
  have one: "dict_get (jitter_get_data pf (int k) ping) ''status'' = PStr ''offline''
          \<and> dict_get (jitter_get_data pf (int k) ping) ''error''
              = PStr ''Insufficient data for jitter calculation''
          \<and> latency_get_data pf (int k) ping =
              [(''average'', PFloat (py_round2 v)), (''min'', PFloat (py_round2 v)),
               (''max'', PFloat (py_round2 v)), (''status'', PStr ''online''),
               (''error'', PNone)]"
    if s: "succ = [v]" and d: "dbl v = v" and u: "py_sum pf [v] = v"
  proof -
    have "latency_get_data pf (int k) ping =
              [(''average'', PFloat (py_round2 v)), (''min'', PFloat (py_round2 v)),
               (''max'', PFloat (py_round2 v)), (''status'', PStr ''online''),
               (''error'', PNone)]"
      unfolding latency_get_data_def collect_latencies_eq assms [symmetric] s
      by (simp add: Let_def u d)
    then show ?thesis unfolding jit using s by (simp add: dict_get_def)
  qed
  show ?thesis using jit one by blast
qed

text \<open>
  The standard deviation of the round trip times \<open>1\<close> and \<open>1.25\<close> on the reference
  platform: every intermediate value is a double, so no operation rounds.
\<close>

lemma sqrt_64th: "sqrt (1 / 64) = 1 / 8"
  by (rule real_sqrt_unique) (simp_all add: power2_eq_square)

lemma dbl_eighth: "dbl (1 / 8) = 1 / 8"
  by (simp add: dbl_eval)

lemma double_std_example:
  "double_population_std reference_platform [1, 5 / 4] = 1 / 8"
proof -
  have s: "left_to_right_sum [1, 5 / 4] = 9 / 4"
    by (simp add: left_to_right_sum_def dbl_eval)
  have m: "dbl (9 / 4 / real (length [1, 5 / 4 :: real])) = 9 / 8"
    by (simp add: dbl_eval)
  have d: "dbl (1 - 9 / 8) = - (1 / 8)" "dbl (5 / 4 - 9 / 8) = 1 / 8"
    by (simp_all add: dbl_eval)
  have p: "nearest_pow (- (1 / 8)) 2 = 1 / 64" "nearest_pow (1 / 8) 2 = 1 / 64"
    by (simp_all add: nearest_pow_def dbl_eval)
  have t: "left_to_right_sum [1 / 64, 1 / 64] = 1 / 32"
    by (simp add: left_to_right_sum_def dbl_eval)
  have v: "dbl (1 / 32 / real (length [1, 5 / 4 :: real])) = 1 / 64"
    by (simp add: dbl_eval)
  have r: "nearest_pow (1 / 64) (1 / 2) = 1 / 8"
    by (simp add: nearest_pow_def sqrt_64th dbl_eighth)
  have sel: "py_sum reference_platform = left_to_right_sum"
    "py_pow reference_platform = nearest_pow"
    by (simp_all add: reference_platform_def)
  show ?thesis
    unfolding double_population_std_def Let_def sel list.map s m d p t v r ..
qed

text \<open>
  The theorem at two successes of three pings, and at one success of two pings.
\<close>

theorem jitter_needs_two_samples_witness:
  "jitter_get_data reference_platform 3 (replies [Some 1, None, Some (5 / 4)]) =
     [(''average'', PFloat (12 / 100)), (''status'', PStr ''online''), (''error'', PNone)]
   \<and> jitter_get_data reference_platform 2 (replies [None, Some (1 / 8)]) =
     [(''average'', PInt 0), (''status'', PStr ''offline''),
      (''error'', PStr ''Insufficient data for jitter calculation'')]
   \<and> latency_get_data reference_platform 2 (replies [None, Some (1 / 8)]) =
     [(''average'', PFloat (12 / 100)), (''min'', PFloat (12 / 100)),
      (''max'', PFloat (12 / 100)), (''status'', PStr ''online''), (''error'', PNone)]"
proof -
  have h2: "[1, 5 / 4] = successful_samples 3 (replies [Some 1, None, Some (5 / 4)])"
    by (simp add: successful_samples_def replies_def upt_rec)
  have h1: "[1 / 8] = successful_samples 2 (replies [None, Some (1 / 8)])"
    by (simp add: successful_samples_def replies_def upt_rec)
  have r: "py_round2 (1 / 8) = 12 / 100"
    by (simp add: py_round2_def round_half_even_def)
  have u: "py_sum reference_platform [1 / 8] = 1 / 8"
    by (simp add: reference_platform_def left_to_right_sum_def dbl_eighth)
  have two: "length [1, 5 / 4 :: real] < 2 \<longleftrightarrow> False"
    and one: "length [1 / 8 :: real] < 2 \<longleftrightarrow> True"
    and n: "int 3 = 3" "int 2 = 2"
    by simp_all
  show ?thesis
    using jitter_needs_two_samples [OF h2, where pf = reference_platform and v = 0]
          jitter_needs_two_samples [OF h1, where pf = reference_platform and v = "1 / 8"]
          dbl_eighth u
    unfolding double_std_example r two one n if_True if_False
    by blast
qed

text \<open>
  Claim C5 as stated fails: for the round trip times \<open>1\<close> and \<open>1.25\<close> the population
  standard deviation is \<open>0.125\<close> and the jitter probe reports \<open>0.12\<close>; for the single
  value \<open>0.125\<close> the latency probe reports \<open>0.12\<close>.
\<close>

theorem jitter_and_latency_report_rounded_values:
  "dict_get (jitter_get_data reference_platform 2 (replies [Some 1, Some (5 / 4)])) ''average''
     = PFloat (12 / 100)
   \<and> population_std [1, 5 / 4] = 1 / 8
   \<and> dict_get (jitter_get_data reference_platform 2 (replies [Some 1, Some (5 / 4)])) ''average''
     \<noteq> PFloat (population_std [1, 5 / 4])
   \<and> dict_get (latency_get_data reference_platform 1 (replies [Some (1 / 8)])) ''average''
     = PFloat (12 / 100)
   \<and> dict_get (latency_get_data reference_platform 1 (replies [Some (1 / 8)])) ''average''
     \<noteq> PFloat (1 / 8)"
proof -
  have sd: "population_std [1, 5 / 4] = 1 / 8"
    by (simp add: population_std_def power2_eq_square sqrt_64th)
  have r: "py_round2 (1 / 8) = 12 / 100"
    by (simp add: py_round2_def round_half_even_def)
  have c2: "collect_latencies 2 (replies [Some 1, Some (5 / 4)]) = [1, 5 / 4]"
    by (simp add: collect_latencies_def replies_def upt_rec)
  have c1: "collect_latencies 1 (replies [Some (1 / 8)]) = [1 / 8]"
    by (simp add: collect_latencies_def replies_def)
  have j: "jitter_get_data reference_platform 2 (replies [Some 1, Some (5 / 4)])
             = [(''average'', PFloat (py_round2 (double_population_std reference_platform [1, 5 / 4]))),
                (''status'', PStr ''online''), (''error'', PNone)]"
    unfolding jitter_get_data_def c2 by (simp add: Let_def double_population_std_def)
  have u: "dbl (py_sum reference_platform [1 / 8] / real (length [1 / 8 :: real])) = 1 / 8"
    by (simp add: reference_platform_def left_to_right_sum_def dbl_eighth)
  have l: "latency_get_data reference_platform 1 (replies [Some (1 / 8)])
             = [(''average'', PFloat (py_round2 (1 / 8))),
                (''min'', PFloat (py_round2 (1 / 8))),
                (''max'', PFloat (py_round2 (1 / 8))),
                (''status'', PStr ''online''), (''error'', PNone)]"
    unfolding latency_get_data_def c1 Let_def u by simp
  show ?thesis unfolding j l sd double_std_example r by (simp add: dict_get_def)
qed

text \<open>
  Two values where double arithmetic and exact arithmetic round to different second
  decimals. The average of the doubles nearest to \<open>8.806\<close> and \<open>37.304\<close> is reported as
  \<open>23.05\<close>, where the exact average \<open>23.055\<close> would round to \<open>23.06\<close>; the loss at 67
  successes of 160 pings is reported as \<open>58.13\<close>, where the exact loss \<open>58.125\<close> would
  round to \<open>58.12\<close>.
\<close>

lemma latency_example_of_double_rounding:
  "py_round2 (dbl (left_to_right_sum [dbl (8806 / 1000), dbl (37304 / 1000)] / 2)) = 2305 / 100"
  by (simp add: left_to_right_sum_def py_round2_def dbl_eval)

lemma packet_loss_example_of_double_rounding:
  "py_round2 (dbl (dbl (real (160 - 67) / real 160) * 100)) = 5813 / 100"
  by (simp add: py_round2_def dbl_eval)

section \<open>Properties of the route stability sensor\<close>

lemma fold_matches:
  "fold (\<lambda>i (matches, total_comparisons).
           (if cur = h ! i then matches + 1 else matches, total_comparisons + 1))
     is (m::nat, t::nat)
   = (m + length (filter (\<lambda>i. cur = h ! i) is), t + length is)"
  by (induction "is" arbitrary: m t) auto

lemma butlast_as_map: "butlast h = map (\<lambda>i. h ! i) [0..<length h - 1]"
  by (rule nth_equalityI) (simp_all add: nth_butlast)

lemma matches_in_butlast:
  "length (filter (\<lambda>i. cur = h ! i) [0..<length h - 1])
     = length (filter (\<lambda>s. s = cur) (butlast h))"
proof -
  have flip: "(\<lambda>i. cur = h ! i) = (\<lambda>s. s = cur) \<circ> (\<lambda>i. h ! i)"
    by (rule ext) auto
  have "filter (\<lambda>s. s = cur) (butlast h)
          = map (\<lambda>i. h ! i) (filter ((\<lambda>s. s = cur) \<circ> (\<lambda>i. h ! i)) [0..<length h - 1])"
    by (subst butlast_as_map) (rule filter_map)
  then show ?thesis unfolding flip by simp
qed

lemma calculate_stability_eq: "calculate_stability h = stability_score h"
proof (cases "length h < 2")
  case True
  then show ?thesis by (simp add: calculate_stability_def stability_score_def)
next
  case False
  then have pos: "length h - 1 \<noteq> 0" by simp
  have "calculate_stability h =
          real (length (filter (\<lambda>s. s = last h) (butlast h))) / real (length h - 1) * 100"
    unfolding calculate_stability_def Let_def fold_matches matches_in_butlast
    using False pos by simp
  then show ?thesis using False by (simp add: stability_score_def)
qed

lemma route_get_data_failed:
  "got = None \<or> got = Some [] \<Longrightarrow>
     route_stability_get_data got h = (route_failed, h)"
  by (auto simp: route_stability_get_data_def)

lemma route_get_data_history:
  "route \<noteq> [] \<Longrightarrow>
     snd (route_stability_get_data (Some route) h)
       = (if length h < 10 then h @ [route] else tl (h @ [route]))"
  by (simp add: route_stability_get_data_def max_history_def Let_def)

lemma route_get_data_length:
  "length h \<le> 10 \<Longrightarrow> length (snd (route_stability_get_data got h)) \<le> 10"
  by (cases got) (auto simp: route_stability_get_data_def max_history_def Let_def)

lemma run_traces_length:
  "length h \<le> 10 \<Longrightarrow> length (run_traces gots h) \<le> 10"
  unfolding run_traces_def
  by (induction gots arbitrary: h) (simp_all add: route_get_data_length)

lemma route_get_data_report:
  "route \<noteq> [] \<Longrightarrow> h' = snd (route_stability_get_data (Some route) h) \<Longrightarrow>
     fst (route_stability_get_data (Some route) h) =
       [(''overall_stability'', PFloat (py_round2 (stability_score h'))),
        (''route_changes'', PInt (int (length h') - 1)),
        (''current_route'', PList (map PStr route)),
        (''status'', PStr ''online''),
        (''error'', PNone)]"
  by (simp add: route_stability_get_data_def Let_def calculate_stability_eq)

text \<open>
  Claim C3, as amended. For a history of at most 10 snapshots (the history starts empty,
  and every history reached from the empty one has at most 10): when the path trace
  returns nothing, or no hop, the probe reports status offline with the error
  \<open>Failed to get route\<close> and leaves the history unchanged. Otherwise the snapshot is
  appended, the oldest snapshot being dropped when the history already held 10, so the
  new history has at most 10; the reported \<open>overall_stability\<close> is, rounded to 2 decimal
  places, 100 when the new history holds fewer than 2 snapshots and else 100 times the
  number of earlier snapshots equal to the current one, divided by the size of the new
  history minus 1; \<open>route_changes\<close> is that size minus 1.
\<close>

theorem route_stability_probe:
  assumes "length h \<le> 10"
  shows "(got = None \<or> got = Some [] \<longrightarrow>
            route_stability_get_data got h = (route_failed, h)
          \<and> dict_get route_failed ''status'' = PStr ''offline''
          \<and> dict_get route_failed ''error'' = PStr ''Failed to get route'')
       \<and> (got = Some route \<and> route \<noteq> [] \<longrightarrow>
            (let h' = (if length h < 10 then h @ [route] else tl h @ [route])
             in route_stability_get_data got h =
                  ([(''overall_stability'',
                       PFloat (py_round2
                         (if length h' < 2 then 100
                          else 100 * real (length (filter (\<lambda>s. s = route) (butlast h')))
                                 / real (length h' - 1)))),
                    (''route_changes'', PInt (int (length h' - 1))),
                    (''current_route'', PList (map PStr route)),
                    (''status'', PStr ''online''),
                    (''error'', PNone)],
                   h')
              \<and> last h' = route \<and> length h' \<le> 10))
       \<and> length (run_traces gots []) \<le> 10"
proof -
  have fail: "dict_get route_failed ''status'' = PStr ''offline''
          \<and> dict_get route_failed ''error'' = PStr ''Failed to get route''"
    by (simp add: route_failed_def dict_get_def)
  define h' where "h' = (if length h < 10 then h @ [route] else tl h @ [route])"
  have ok: "route_stability_get_data got h =
                  ([(''overall_stability'',
                       PFloat (py_round2
                         (if length h' < 2 then 100
                          else 100 * real (length (filter (\<lambda>s. s = route) (butlast h')))
                                 / real (length h' - 1)))),
                    (''route_changes'', PInt (int (length h' - 1))),
                    (''current_route'', PList (map PStr route)),
                    (''status'', PStr ''online''),
                    (''error'', PNone)],
                   h')
              \<and> last h' = route \<and> length h' \<le> 10"
    if g: "got = Some route" and r: "route \<noteq> []"
  proof -
    have ne: "h \<noteq> []" if "\<not> length h < 10" using that by auto
    have hist: "snd (route_stability_get_data (Some route) h) = h'"
      using ne by (simp add: route_get_data_history [OF r] h'_def)
    have l: "last h' = route" by (simp add: h'_def)
    have len: "length h' \<le> 10" using assms by (simp add: h'_def)
    have pos: "1 \<le> length h'" by (simp add: h'_def)
    have score: "stability_score h' =
                   (if length h' < 2 then 100
                    else 100 * real (length (filter (\<lambda>s. s = route) (butlast h')))
                           / real (length h' - 1))"
      by (simp add: stability_score_def l)
    have rep: "fst (route_stability_get_data (Some route) h) =
       [(''overall_stability'', PFloat (py_round2 (stability_score h'))),
        (''route_changes'', PInt (int (length h') - 1)),
        (''current_route'', PList (map PStr route)),
        (''status'', PStr ''online''),
        (''error'', PNone)]"
      by (rule route_get_data_report [OF r hist [symmetric]])
    have ii: "int (length h') - 1 = int (length h' - 1)" using pos by simp
    show ?thesis
      unfolding g using rep hist l len unfolding score ii
      by (simp add: prod_eq_iff)
  qed
  show ?thesis
    using route_get_data_failed [of got h] fail ok run_traces_length [of "[]" gots]
    unfolding h'_def Let_def by simp
qed

text \<open>
  The theorem at the alternating history of the specification's example, and at a failed
  trace.
\<close>

theorem route_stability_probe_witness:
  "route_stability_get_data (Some route_a) [route_a, route_b, route_a, route_b] =
     ([(''overall_stability'', PFloat 50),
       (''route_changes'', PInt 4),
       (''current_route'', PList (map PStr route_a)),
       (''status'', PStr ''online''),
       (''error'', PNone)],
      [route_a, route_b, route_a, route_b, route_a])
   \<and> route_stability_get_data None [route_a, route_b] = (route_failed, [route_a, route_b])"
proof -
  have ne: "route_a \<noteq> []" "route_b \<noteq> route_a"
    by (simp_all add: route_a_def route_b_def)
  have r: "py_round2 50 = 50"
    by (simp add: py_round2_def round_half_even_def)
  have l4: "length [route_a, route_b, route_a, route_b] \<le> 10"
    and l2: "length [route_a, route_b] \<le> 10"
    by simp_all
  show ?thesis
    using route_stability_probe [OF l4, of "Some route_a" route_a "[]"]
          route_stability_probe [OF l2, of None route_a "[]"]
    by (simp add: ne r Let_def)
qed

text \<open>
  Claim C3 as stated fails: with one match in three comparisons the score is \<open>100 / 3\<close>,
  and the probe reports \<open>33.33\<close>.
\<close>

theorem route_stability_score_is_rounded:
  "dict_get (fst (route_stability_get_data (Some route_a) [route_a, route_b, route_b]))
      ''overall_stability'' = PFloat (3333 / 100)
   \<and> snd (route_stability_get_data (Some route_a) [route_a, route_b, route_b])
       = [route_a, route_b, route_b, route_a]
   \<and> dict_get (fst (route_stability_get_data (Some route_a) [route_a, route_b, route_b]))
      ''overall_stability'' \<noteq> PFloat (100 * 1 / (4 - 1))"
proof -
  have ne: "route_a \<noteq> []" "route_b \<noteq> route_a" "route_a \<noteq> route_b"
    by (simp_all add: route_a_def route_b_def)
  have s: "calculate_stability [route_a, route_b, route_b, route_a] = 100 / 3"
    by (simp add: calculate_stability_eq stability_score_def ne)
  have r: "py_round2 (100 / 3) = 3333 / 100"
    by (simp add: py_round2_def round_half_even_def)
  have "route_stability_get_data (Some route_a) [route_a, route_b, route_b] =
     ([(''overall_stability'', PFloat (py_round2 (calculate_stability [route_a, route_b, route_b, route_a]))),
       (''route_changes'', PInt 3),
       (''current_route'', PList (map PStr route_a)),
       (''status'', PStr ''online''),
       (''error'', PNone)],
      [route_a, route_b, route_b, route_a])"
    by (simp add: route_stability_get_data_def max_history_def Let_def ne)
  then show ?thesis unfolding s r by (simp add: dict_get_def)
qed

section \<open>Properties of the address lookup and of the monitor\<close>

lemma try_sources_all_fail:
  "\<forall>s \<in> set srcs. isl (get s) \<Longrightarrow>
     try_sources get srcs last_error =
       Inl (PyException (''All IP info sources failed. Last error: ''
              @ (if srcs = []
                 then (case last_error of None \<Rightarrow> ''None'' | Some e \<Rightarrow> str_exn e)
                 else str_exn (projl (get (last srcs))))))"
proof (induction srcs arbitrary: last_error)
  case Nil
  show ?case by simp
next
  case (Cons s srcs)
  then obtain e where e: "get s = Inl e" by (cases "get s") auto
  from Cons have "try_sources get srcs (Some e) =
       Inl (PyException (''All IP info sources failed. Last error: ''
              @ (if srcs = [] then str_exn e else str_exn (projl (get (last srcs))))))"
    by simp
  then show ?case using e by simp
qed

text \<open>
  Claim C6. When every provider that is tried raises, the chain raises an exception whose
  text is \<open>All IP info sources failed. Last error:\<close> followed by the text of the error of
  the last provider tried (by \<open>None\<close> when no provider was tried): no default record is
  returned. The caller, \<^verbatim>\<open>get_ip_information\<close>, turns it into the address probe's own
  result with status \<open>error\<close> and that text as the error (or the text of the timeout
  when the 30 second ceiling expired first).
\<close>

theorem address_chain_exhaustion_is_error:
  assumes "srcs = sources_to_try (providers m) (Some (ip_info_source m))"
    and "\<forall>s \<in> set srcs. isl (fetch w s)"
    and "msg = ''All IP info sources failed. Last error: ''
                 @ (if srcs = [] then ''None'' else str_exn (projl (fetch w (last srcs))))"
  shows "manager_get_ip_info (providers m) (fetch w) (Some (ip_info_source m))
           = Inl (PyException msg)
       \<and> get_ip_information m w =
           [(''status'', PStr ''error''),
            (''error'', PStr (if wait_for_timed_out w then ''Request timed out'' else msg)),
            (''timestamp'', PStr (now w))]"
proof -
  have chain: "manager_get_ip_info (providers m) (fetch w) (Some (ip_info_source m))
           = Inl (PyException msg)"
    unfolding manager_get_ip_info_def assms(1) [symmetric] assms(3)
    using try_sources_all_fail [OF assms(2), of None] by simp
  show ?thesis
    using chain by (simp add: get_ip_information_def)
qed

text \<open>
  The theorem with two providers, both answering HTTP 503.
\<close>

theorem address_chain_exhaustion_is_error_witness:
  "manager_get_ip_info [''ipinfo'', ''ipapi''] all_providers_down (Some ''ipinfo'')
     = Inl (PyException ''All IP info sources failed. Last error: HTTP 503: ipapi'')
   \<and> get_ip_information
       \<lparr>ip_info_source = ''ipinfo'', providers = [''ipinfo'', ''ipapi''], sensors = []\<rparr>
       \<lparr>fetch = all_providers_down, wait_for_timed_out = False, now = ''2026-01-01T00:00:00'',
        sensor_get_data = latency_raises\<rparr>
     = [(''status'', PStr ''error''),
        (''error'', PStr ''All IP info sources failed. Last error: HTTP 503: ipapi''),
        (''timestamp'', PStr ''2026-01-01T00:00:00'')]"
proof -
  have s: "[''ipinfo'', ''ipapi''] = sources_to_try [''ipinfo'', ''ipapi''] (Some ''ipinfo'')"
    by (simp add: sources_to_try_def fallback_order_def)
  have f: "\<forall>s \<in> set [''ipinfo'', ''ipapi'']. isl (all_providers_down s)"
    by (simp add: all_providers_down_def)
  show ?thesis
    using address_chain_exhaustion_is_error
      [of "[''ipinfo'', ''ipapi'']"
          "\<lparr>ip_info_source = ''ipinfo'', providers = [''ipinfo'', ''ipapi''], sensors = []\<rparr>"
          "\<lparr>fetch = all_providers_down, wait_for_timed_out = False,
            now = ''2026-01-01T00:00:00'', sensor_get_data = latency_raises\<rparr>"
          "''All IP info sources failed. Last error: HTTP 503: ipapi''"]
      s f
    by (simp add: all_providers_down_def)
qed

lemma collect_sensors_fold:
  "collect_sensors get names (results, calls) =
     (fold (\<lambda>n r. AList.update n (entry_of (get n)) r) names results, calls @ names)"
  by (induction names arbitrary: results calls)
     (auto simp: entry_of_def split: sum.splits)

lemma keys_fold_update:
  "distinct names \<Longrightarrow> set names \<inter> fst ` set results = {} \<Longrightarrow>
     map fst (fold (\<lambda>n r. AList.update n (g n) r) names results) = map fst results @ names"
proof (induction names arbitrary: results)
  case Nil
  show ?case by simp
next
  case (Cons n names)
  have n: "n \<notin> fst ` set results" using Cons.prems(2) by auto
  have k: "map fst (AList.update n (g n) results) = map fst results @ [n]"
    using n by (simp add: AList.update_keys)
  have d: "set names \<inter> fst ` set (AList.update n (g n) results) = {}"
    using Cons.prems by (auto simp: AList.dom_update)
  have "map fst (fold (\<lambda>n r. AList.update n (g n) r) names (AList.update n (g n) results))
          = map fst (AList.update n (g n) results) @ names"
    using Cons.prems(1) d by (intro Cons.IH) auto
  then show ?case by (simp add: k)
qed

lemma map_of_fold_update:
  "map_of (fold (\<lambda>n r. AList.update n (g n) r) names results) k =
     (if k \<in> set names then Some (g k) else map_of results k)"
  by (induction names arbitrary: results) (auto simp: AList.update_conv')

lemma initialize_sensors_filter:
  "initialize_sensors c =
     filter (\<lambda>n. n \<in> set (initialize_sensors c))
       [''dns_config'', ''latency'', ''packet_loss'', ''jitter'', ''throughput'',
        ''dns_reliability'', ''route_stability'']"
  by (simp add: initialize_sensors_def)

lemma initialize_sensors_distinct: "distinct (initialize_sensors c)"
  by (subst initialize_sensors_filter) (rule distinct_filter, simp)

lemma ip_info_not_a_sensor: "''ip_info'' \<notin> set (initialize_sensors c)"
  by (simp add: initialize_sensors_def)

text \<open>
  Claim C4. For every configuration of enabled sensors, one collection cycle returns a
  report whose keys are \<open>ip_info\<close> followed by the enabled sensors, each once. Every
  enabled sensor is awaited, in order, whatever the sensors before it did. The entry of
  a sensor is the data it returned, or, when it raised, the dictionary with status
  \<open>error\<close> and the text of the exception: a failure is an entry of that sensor only,
  never a missing key.
\<close>

theorem collection_cycle_isolates_sensor_failures:
  assumes "sensors m = initialize_sensors c"
    and "get_all_sensor_data m w = (results, calls)"
  shows "map fst results = ''ip_info'' # sensors m
       \<and> distinct (map fst results)
       \<and> calls = sensors m
       \<and> map_of results ''ip_info'' = Some (PDict (get_ip_information m w))
       \<and> (\<forall>name \<in> set (sensors m).
            map_of results name =
              Some (case sensor_get_data w name of
                      Inr data \<Rightarrow> PDict data
                    | Inl e \<Rightarrow>
                        PDict [(''status'', PStr ''error''), (''error'', PStr (str_exn e))]))"
proof -
  let ?ip = "[(''ip_info'', PDict (get_ip_information m w))]"
  let ?upd = "\<lambda>n r. AList.update n (entry_of (sensor_get_data w n)) r"
  have res: "results = fold ?upd (sensors m) ?ip" and calls: "calls = sensors m"
    using assms(2) by (auto simp: get_all_sensor_data_def collect_sensors_fold)
  have d: "distinct (sensors m)" and ni: "''ip_info'' \<notin> set (sensors m)"
    unfolding assms(1) by (rule initialize_sensors_distinct, rule ip_info_not_a_sensor)
  have keys: "map fst results = ''ip_info'' # sensors m"
    unfolding res using keys_fold_update [OF d, of ?ip] ni by simp
  have dist: "distinct (map fst results)"
    unfolding keys using d ni by simp
  have ip: "map_of results ''ip_info'' = Some (PDict (get_ip_information m w))"
    unfolding res using ni by (simp add: map_of_fold_update)
  have each: "\<forall>name \<in> set (sensors m).
            map_of results name =
              Some (case sensor_get_data w name of
                      Inr data \<Rightarrow> PDict data
                    | Inl e \<Rightarrow>
                        PDict [(''status'', PStr ''error''), (''error'', PStr (str_exn e))])"
    unfolding res by (simp add: map_of_fold_update entry_of_def)
  show ?thesis using keys dist calls ip each by blast
qed

text \<open>
  The theorem with three sensors enabled, the second raising.
\<close>

theorem collection_cycle_isolates_sensor_failures_witness:
  "get_all_sensor_data
     \<lparr>ip_info_source = ''ipapi'', providers = [''ipapi''],
      sensors = [''dns_config'', ''latency'', ''jitter'']\<rparr>
     \<lparr>fetch = all_providers_down, wait_for_timed_out = False, now = ''2026-01-01T00:00:00'',
      sensor_get_data = latency_raises\<rparr>
   = ([(''ip_info'',
        PDict [(''status'', PStr ''error''),
               (''error'', PStr ''All IP info sources failed. Last error: HTTP 503: ipapi''),
               (''timestamp'', PStr ''2026-01-01T00:00:00'')]),
       (''dns_config'', PDict [(''status'', PStr ''online'')]),
       (''latency'', PDict [(''status'', PStr ''error''), (''error'', PStr ''boom'')]),
       (''jitter'', PDict [(''status'', PStr ''online'')])],
      [''dns_config'', ''latency'', ''jitter''])
   \<and> map_of
       (fst (get_all_sensor_data
          \<lparr>ip_info_source = ''ipapi'', providers = [''ipapi''],
           sensors = [''dns_config'', ''latency'', ''jitter'']\<rparr>
          \<lparr>fetch = all_providers_down, wait_for_timed_out = False,
           now = ''2026-01-01T00:00:00'', sensor_get_data = latency_raises\<rparr>))
       ''latency''
     = Some (PDict [(''status'', PStr ''error''), (''error'', PStr ''boom'')])"
proof -
  let ?m = "\<lparr>ip_info_source = ''ipapi'', providers = [''ipapi''],
             sensors = [''dns_config'', ''latency'', ''jitter'']\<rparr>"
  let ?w = "\<lparr>fetch = all_providers_down, wait_for_timed_out = False,
             now = ''2026-01-01T00:00:00'', sensor_get_data = latency_raises\<rparr>"
  let ?c = "\<lparr>dns_config_enabled = True, latency_enabled = True, packet_loss_enabled = False,
             jitter_enabled = True, throughput_enabled = False,
             dns_reliability_enabled = False, route_stability_enabled = False\<rparr>"
  have s: "sensors ?m = initialize_sensors ?c"
    by (simp add: initialize_sensors_def)
  have g: "get_all_sensor_data ?m ?w =
             (fst (get_all_sensor_data ?m ?w), snd (get_all_sensor_data ?m ?w))"
    by simp
  have v: "get_all_sensor_data ?m ?w
   = ([(''ip_info'',
        PDict [(''status'', PStr ''error''),
               (''error'', PStr ''All IP info sources failed. Last error: HTTP 503: ipapi''),
               (''timestamp'', PStr ''2026-01-01T00:00:00'')]),
       (''dns_config'', PDict [(''status'', PStr ''online'')]),
       (''latency'', PDict [(''status'', PStr ''error''), (''error'', PStr ''boom'')]),
       (''jitter'', PDict [(''status'', PStr ''online'')])],
      [''dns_config'', ''latency'', ''jitter''])"
    by (simp add: get_all_sensor_data_def get_ip_information_def manager_get_ip_info_def
          sources_to_try_def fallback_order_def all_providers_down_def latency_raises_def)
  have "map_of (fst (get_all_sensor_data ?m ?w)) ''latency''
          = Some (PDict [(''status'', PStr ''error''), (''error'', PStr ''boom'')])"
    using collection_cycle_isolates_sensor_failures [OF s g]
    by (simp add: latency_raises_def)
  with v show ?thesis by blast
qed

section \<open>Properties of the normalizers\<close>

lemma ipinfo_normalized_form:
  "ipinfo_normalize_data fl stamp raw = Inr r \<Longrightarrow>
     \<exists>lat lon. r = ipinfo_record raw lat lon stamp"
  by (auto simp: ipinfo_normalize_data_def Let_def
           split: option.splits pyval.splits if_splits)

lemma ipinfo_renormalize:
  "ipinfo_normalize_data fl stamp' (ipinfo_record raw lat lon stamp) =
     Inr [(''ip'', dict_get raw ''ip''),
          (''hostname'', dict_get raw ''hostname''),
          (''city'', dict_get raw ''city''),
          (''region'', dict_get raw ''region''),
          (''country'', dict_get raw ''country''),
          (''latitude'', PNone),
          (''longitude'', PNone),
          (''organization'', PNone),
          (''postal_code'', PNone),
          (''timezone'', dict_get raw ''timezone''),
          (''source'', PStr ''ipinfo.io''),
          (''timestamp'', PStr stamp')]"
  by (simp add: ipinfo_normalize_data_def ipinfo_record_def dict_get_def)

lemma ipinfo_record_get:
  "dict_get (ipinfo_record raw lat lon stamp) ''ip'' = dict_get raw ''ip''"
  "dict_get (ipinfo_record raw lat lon stamp) ''hostname'' = dict_get raw ''hostname''"
  "dict_get (ipinfo_record raw lat lon stamp) ''city'' = dict_get raw ''city''"
  "dict_get (ipinfo_record raw lat lon stamp) ''region'' = dict_get raw ''region''"
  "dict_get (ipinfo_record raw lat lon stamp) ''country'' = dict_get raw ''country''"
  "dict_get (ipinfo_record raw lat lon stamp) ''latitude'' = lat"
  "dict_get (ipinfo_record raw lat lon stamp) ''longitude'' = lon"
  "dict_get (ipinfo_record raw lat lon stamp) ''organization'' = dict_get raw ''org''"
  "dict_get (ipinfo_record raw lat lon stamp) ''postal_code'' = dict_get raw ''postal''"
  "dict_get (ipinfo_record raw lat lon stamp) ''timezone'' = dict_get raw ''timezone''"
  by (simp_all add: ipinfo_record_def dict_get_def)

text \<open>
  Claim C9, as amended. Applying a provider's \<^verbatim>\<open>normalize_data\<close> to a record \<open>r\<close> that it
  produced reads \<open>r\<close> by the keys of the provider's raw payload. It keeps the source and
  the fields whose raw key is the canonical key (city, country and timezone for
  ip-api.com; ip, hostname, city, region, country and timezone for ipinfo.io) and returns
  \<open>None\<close> for every other field. So, with the time stamp kept, \<open>r\<close> is returned
  unchanged exactly when those other fields of \<open>r\<close> are \<open>None\<close>.
\<close>

theorem renormalizing_keeps_shared_keys_only:
  "(r = ipapi_normalize_data t1 raw \<longrightarrow>
      ipapi_normalize_data t2 r =
        [(''ip'', PNone),
         (''hostname'', PNone),
         (''city'', dict_get r ''city''),
         (''region'', PNone),
         (''country'', dict_get r ''country''),
         (''latitude'', PNone),
         (''longitude'', PNone),
         (''organization'', PNone),
         (''postal_code'', PNone),
         (''timezone'', dict_get r ''timezone''),
         (''source'', PStr ''ip-api.com''),
         (''timestamp'', PStr t2)]
    \<and> (ipapi_normalize_data t1 r = r \<longleftrightarrow>
         dict_get r ''ip'' = PNone \<and> dict_get r ''hostname'' = PNone
       \<and> dict_get r ''region'' = PNone \<and> dict_get r ''latitude'' = PNone
       \<and> dict_get r ''longitude'' = PNone \<and> dict_get r ''organization'' = PNone
       \<and> dict_get r ''postal_code'' = PNone))
   \<and> (ipinfo_normalize_data fl t1 payload = Inr s \<longrightarrow>
      ipinfo_normalize_data fl t2 s =
        Inr [(''ip'', dict_get s ''ip''),
             (''hostname'', dict_get s ''hostname''),
             (''city'', dict_get s ''city''),
             (''region'', dict_get s ''region''),
             (''country'', dict_get s ''country''),
             (''latitude'', PNone),
             (''longitude'', PNone),
             (''organization'', PNone),
             (''postal_code'', PNone),
             (''timezone'', dict_get s ''timezone''),
             (''source'', PStr ''ipinfo.io''),
             (''timestamp'', PStr t2)]
    \<and> (ipinfo_normalize_data fl t1 s = Inr s \<longleftrightarrow>
         dict_get s ''latitude'' = PNone \<and> dict_get s ''longitude'' = PNone
       \<and> dict_get s ''organization'' = PNone \<and> dict_get s ''postal_code'' = PNone))"
proof -
  have api: "ipapi_normalize_data t2 r =
        [(''ip'', PNone),
         (''hostname'', PNone),
         (''city'', dict_get r ''city''),
         (''region'', PNone),
         (''country'', dict_get r ''country''),
         (''latitude'', PNone),
         (''longitude'', PNone),
         (''organization'', PNone),
         (''postal_code'', PNone),
         (''timezone'', dict_get r ''timezone''),
         (''source'', PStr ''ip-api.com''),
         (''timestamp'', PStr t2)]
    \<and> (ipapi_normalize_data t1 r = r \<longleftrightarrow>
         dict_get r ''ip'' = PNone \<and> dict_get r ''hostname'' = PNone
       \<and> dict_get r ''region'' = PNone \<and> dict_get r ''latitude'' = PNone
       \<and> dict_get r ''longitude'' = PNone \<and> dict_get r ''organization'' = PNone
       \<and> dict_get r ''postal_code'' = PNone)"
    if "r = ipapi_normalize_data t1 raw"
    unfolding that by (auto simp: ipapi_normalize_data_def dict_get_def)
  have info: "ipinfo_normalize_data fl t2 s =
        Inr [(''ip'', dict_get s ''ip''),
             (''hostname'', dict_get s ''hostname''),
             (''city'', dict_get s ''city''),
             (''region'', dict_get s ''region''),
             (''country'', dict_get s ''country''),
             (''latitude'', PNone),
             (''longitude'', PNone),
             (''organization'', PNone),
             (''postal_code'', PNone),
             (''timezone'', dict_get s ''timezone''),
             (''source'', PStr ''ipinfo.io''),
             (''timestamp'', PStr t2)]
    \<and> (ipinfo_normalize_data fl t1 s = Inr s \<longleftrightarrow>
         dict_get s ''latitude'' = PNone \<and> dict_get s ''longitude'' = PNone
       \<and> dict_get s ''organization'' = PNone \<and> dict_get s ''postal_code'' = PNone)"
    if "ipinfo_normalize_data fl t1 payload = Inr s"
  proof -
    from that obtain lat lon where eq: "s = ipinfo_record payload lat lon t1"
      using ipinfo_normalized_form by blast
    have a: "ipinfo_normalize_data fl t2 s =
        Inr [(''ip'', dict_get s ''ip''),
             (''hostname'', dict_get s ''hostname''),
             (''city'', dict_get s ''city''),
             (''region'', dict_get s ''region''),
             (''country'', dict_get s ''country''),
             (''latitude'', PNone),
             (''longitude'', PNone),
             (''organization'', PNone),
             (''postal_code'', PNone),
             (''timezone'', dict_get s ''timezone''),
             (''source'', PStr ''ipinfo.io''),
             (''timestamp'', PStr t2)]"
      unfolding eq ipinfo_renormalize ipinfo_record_get ..
    have b: "ipinfo_normalize_data fl t1 s = Inr s \<longleftrightarrow>
         dict_get s ''latitude'' = PNone \<and> dict_get s ''longitude'' = PNone
       \<and> dict_get s ''organization'' = PNone \<and> dict_get s ''postal_code'' = PNone"
      unfolding eq ipinfo_renormalize ipinfo_record_get
      by (auto simp: ipinfo_record_def)
    show ?thesis using a b by blast
  qed
  show ?thesis using api info by blast
qed

text \<open>
  The theorem at the records of the two example payloads.
\<close>

theorem renormalizing_keeps_shared_keys_only_witness:
  "ipapi_normalize_data ''t2'' (ipapi_normalize_data ''t1'' ipapi_payload) =
     [(''ip'', PNone),
      (''hostname'', PNone),
      (''city'', PStr ''Berlin''),
      (''region'', PNone),
      (''country'', PStr ''Germany''),
      (''latitude'', PNone),
      (''longitude'', PNone),
      (''organization'', PNone),
      (''postal_code'', PNone),
      (''timezone'', PStr ''Europe/Berlin''),
      (''source'', PStr ''ip-api.com''),
      (''timestamp'', PStr ''t2'')]
   \<and> ipinfo_normalize_data example_float ''t2''
       (ipinfo_record ipinfo_payload (PFloat (5252 / 100)) (PFloat (134 / 10)) ''t1'') =
     Inr [(''ip'', PStr ''203.0.113.5''),
          (''hostname'', PNone),
          (''city'', PStr ''Berlin''),
          (''region'', PStr ''Berlin''),
          (''country'', PStr ''DE''),
          (''latitude'', PNone),
          (''longitude'', PNone),
          (''organization'', PNone),
          (''postal_code'', PNone),
          (''timezone'', PStr ''Europe/Berlin''),
          (''source'', PStr ''ipinfo.io''),
          (''timestamp'', PStr ''t2'')]"
proof -
  have h: "ipinfo_normalize_data example_float ''t1'' ipinfo_payload =
             Inr (ipinfo_record ipinfo_payload (PFloat (5252 / 100)) (PFloat (134 / 10)) ''t1'')"
    by (simp add: ipinfo_normalize_data_def ipinfo_payload_def example_float_def Let_def)
  have g: "ipapi_normalize_data ''t1'' ipapi_payload = ipapi_normalize_data ''t1'' ipapi_payload"
    by (rule refl)
  show ?thesis
    using renormalizing_keeps_shared_keys_only
            [where r = "ipapi_normalize_data ''t1'' ipapi_payload" and ?t1.0 = "''t1''"
               and raw = ipapi_payload and ?t2.0 = "''t2''" and fl = example_float
               and s = "ipinfo_record ipinfo_payload (PFloat (5252 / 100)) (PFloat (134 / 10)) ''t1''"
               and payload = ipinfo_payload]
          h
    by (simp add: ipapi_normalize_data_def ipapi_payload_def ipinfo_record_def
          ipinfo_payload_def dict_get_def)
qed

text \<open>
  Claim C9 as stated fails: normalizing the record of the ip-api.com payload again
  loses its address, and the record of the ipinfo.io payload is not returned
  unchanged, the time stamp being the same.
\<close>

theorem normalize_data_not_idempotent:
  "ipapi_normalize_data ''t'' (ipapi_normalize_data ''t'' ipapi_payload)
     \<noteq> ipapi_normalize_data ''t'' ipapi_payload
   \<and> dict_get (ipapi_normalize_data ''t'' ipapi_payload) ''ip'' = PStr ''203.0.113.5''
   \<and> dict_get (ipapi_normalize_data ''t'' (ipapi_normalize_data ''t'' ipapi_payload)) ''ip''
       = PNone
   \<and> ipinfo_normalize_data example_float ''t'' ipinfo_payload
       = Inr (ipinfo_record ipinfo_payload (PFloat (5252 / 100)) (PFloat (134 / 10)) ''t'')
   \<and> ipinfo_normalize_data example_float ''t''
        (ipinfo_record ipinfo_payload (PFloat (5252 / 100)) (PFloat (134 / 10)) ''t'')
       \<noteq> Inr (ipinfo_record ipinfo_payload (PFloat (5252 / 100)) (PFloat (134 / 10)) ''t'')"
  by (simp add: ipapi_normalize_data_def ipapi_payload_def dict_get_def
        ipinfo_normalize_data_def ipinfo_payload_def example_float_def ipinfo_record_def Let_def)

section \<open>Properties of the coordinator\<close>

lemma mock_statuses:
  "map_of (mock_ip_info s) ''status'' = Some (PStr ''online'')"
  "map_of (mock_dns_config s) ''status'' = Some (PStr ''online'')"
  "map_of (mock_latency s) ''status'' = Some (PStr ''online'')"
  "map_of (mock_packet_loss s) ''status'' = Some (PStr ''online'')"
  "map_of (mock_jitter s) ''status'' = Some (PStr ''online'')"
  "map_of (mock_throughput s) ''status'' = Some (PStr ''online'')"
  "map_of (mock_dns_reliability s) ''status'' = Some (PStr ''online'')"
  "map_of (mock_route_stability s) ''status'' = Some (PStr ''online'')"
  by (simp_all add: mock_ip_info_def mock_dns_config_def mock_latency_def mock_packet_loss_def
        mock_jitter_def mock_throughput_def mock_dns_reliability_def mock_route_stability_def)

lemma mock_sensor_keys:
  "map_of (get_mock_data clock upd) ''sensors'' =
     Some (PDict
        [(''ip_info'', PDict (mock_ip_info (clock 1))),
         (''dns_config'', PDict (mock_dns_config (clock 2))),
         (''latency'', PDict (mock_latency (clock 3))),
         (''packet_loss'', PDict (mock_packet_loss (clock 4))),
         (''jitter'', PDict (mock_jitter (clock 5))),
         (''throughput'', PDict (mock_throughput (clock 6))),
         (''dns_reliability'', PDict (mock_dns_reliability (clock 7))),
         (''route_stability'', PDict (mock_route_stability (clock 8)))])"
  by (simp add: get_mock_data_def)

lemma mock_metric_status:
  "map (metric_status (get_mock_data clock upd)) metric_names
     = replicate 8 (Some (PStr ''online''))"
  unfolding metric_status_def mock_sensor_keys metric_names_def
  by (simp add: mock_statuses eval_nat_numeral)

text \<open>
  Claim C8. Whatever exception the update cycle raises, the coordinator returns the mock
  data report and no error: the report is the fixture of \<^verbatim>\<open>_get_mock_data\<close>, every one
  of the eight metrics is present in it with status \<open>online\<close>, and it has no error
  entry. Some of the fixture values are listed.
\<close>

theorem coordinator_falls_back_to_mock_data:
  "async_update_data (Inl err) w clock upd = get_mock_data clock upd
   \<and> map (metric_status (async_update_data (Inl err) w clock upd)) metric_names
       = replicate 8 (Some (PStr ''online''))
   \<and> map_of (async_update_data (Inl err) w clock upd) ''error'' = None
   \<and> map_of (async_update_data (Inl err) w clock upd) ''status'' = None
   \<and> map_of (mock_ip_info (clock 1)) ''ip'' = Some (PStr ''192.168.1.1'')
   \<and> map_of (mock_ip_info (clock 1)) ''source'' = Some (PStr ''mock'')
   \<and> map_of (mock_latency (clock 3)) ''average'' = Some (PFloat (255 / 10))
   \<and> map_of (mock_packet_loss (clock 4)) ''average'' = Some (PFloat 0)
   \<and> map_of (mock_jitter (clock 5)) ''average'' = Some (PFloat (52 / 10))
   \<and> map_of (mock_throughput (clock 6)) ''download_mbps'' = Some (PFloat 100)
   \<and> map_of (mock_dns_reliability (clock 7)) ''overall_success_rate'' = Some (PFloat 100)
   \<and> map_of (mock_route_stability (clock 8)) ''overall_stability'' = Some (PFloat 1)"
proof -
  have a: "async_update_data (Inl err) w clock upd = get_mock_data clock upd"
    by (simp add: async_update_data_def)
  have e: "map_of (get_mock_data clock upd) ''error'' = None"
          "map_of (get_mock_data clock upd) ''status'' = None"
    by (simp_all add: get_mock_data_def)
  have f: "map_of (mock_ip_info (clock 1)) ''ip'' = Some (PStr ''192.168.1.1'')"
       "map_of (mock_ip_info (clock 1)) ''source'' = Some (PStr ''mock'')"
       "map_of (mock_latency (clock 3)) ''average'' = Some (PFloat (255 / 10))"
       "map_of (mock_packet_loss (clock 4)) ''average'' = Some (PFloat 0)"
       "map_of (mock_jitter (clock 5)) ''average'' = Some (PFloat (52 / 10))"
       "map_of (mock_throughput (clock 6)) ''download_mbps'' = Some (PFloat 100)"
       "map_of (mock_dns_reliability (clock 7)) ''overall_success_rate'' = Some (PFloat 100)"
       "map_of (mock_route_stability (clock 8)) ''overall_stability'' = Some (PFloat 1)"
    by (simp_all add: mock_ip_info_def mock_latency_def mock_packet_loss_def
        mock_jitter_def mock_throughput_def mock_dns_reliability_def mock_route_stability_def)
  show ?thesis unfolding a using mock_metric_status e f by blast
qed

section \<open>The list of methods of the source\<close>

text \<open>
  A remark on the list of methods of the source. Its last method is the constant
  \<^verbatim>\<open>_get_common_dns_servers\<close>, whose three addresses pass the exclusion predicate. So
  the chain over that list always accepts one of its methods, and its source is the
  name of a method, never \<open>public_fallback\<close>: the fallback of lines 91 to 97 is reached
  only by the loop taken over another list of methods.
\<close>

lemma detect_accepts_some_method:
  assumes "\<exists>m \<in> set ms. filtered_of m \<noteq> []"
  shows "fst (snd (detect_dns_servers ms)) \<in> fst ` set ms"
proof -
  from assms obtain pre m post where
    ms: "ms = pre @ m # post" and m: "filtered_of m \<noteq> []"
    and pre: "\<forall>p \<in> set pre. \<not> filtered_of p \<noteq> []"
    using split_list_first_prop [of ms "\<lambda>m. filtered_of m \<noteq> []"] by blast
  from pre have pre': "\<forall>p \<in> set pre. filtered_of p = []" by simp
  have "detect_dns_servers ms = (filtered_of m, fst m, map fst pre @ [fst m])"
    unfolding ms using m by (simp add: detect_dns_servers_def run_methods_first_accept [OF pre' m])
  then show ?thesis by (simp add: ms)
qed

lemma shipped_chain_never_reaches_fallback:
  "fst (snd (get_system_dns_servers env)) \<noteq> ''public_fallback''"
proof -
  have c: "filtered_of (''_get_common_dns_servers'', Inr get_common_dns_servers) \<noteq> []"
    by (simp add: filtered_of_def get_common_dns_servers_def is_container_dns_def
          container_networks_def)
  have "\<exists>m \<in> set (dns_methods env). filtered_of m \<noteq> []"
    using c by (simp add: dns_methods_def)
  then have "fst (snd (detect_dns_servers (dns_methods env))) \<in> fst ` set (dns_methods env)"
    by (rule detect_accepts_some_method)
  then show ?thesis
    by (auto simp: get_system_dns_servers_def dns_methods_def)
qed

end
